theory Spec2Isabelle
  imports Complex_Main "HOL-Library.Word" "HOL-Library.Sublist"
begin

section \<open>The NSynth feature pipeline of naivebayes.ipynb\<close>

text \<open>
  The notebook decodes serialized \<^verbatim>\<open>tf.train.Example\<close> records
  (\<^verbatim>\<open>parse_tfrecord\<close>), turns each decoded example into a feature vector and a
  label (\<^verbatim>\<open>extract_features\<close>) and collects both over a whole file
  (\<^verbatim>\<open>process_dataset\<close>).

  Conventions of the embedding:
  \<^item> an \<^verbatim>\<open>int64\<close> is a \<open>64 word\<close>, read as a signed number by \<open>sint\<close>;
  \<^item> a \<^verbatim>\<open>float32\<close> is the real number it denotes. The arithmetic of the
    TensorFlow kernels (products, sums, \<open>cos\<close>, \<open>log\<close>) is the exact arithmetic of
    the reals: rounding, overflow to infinity and NaN are not part of this model. The
    cast from \<^verbatim>\<open>int64\<close> is modelled exactly (round to nearest, ties to even, on a
    24-bit significand), since all its results are real numbers;
  \<^item> a second model of \<^verbatim>\<open>extract_features\<close>, over \<^verbatim>\<open>float32\<close> values that
    may be infinite or NaN, says where the results of the first are the results of
    the program: where nothing overflows;
  \<^item> a tensor of rank 1 is a list, a tensor of rank 2 the list of its rows;
  \<^item> a Python exception is the \<open>Inl\<close> branch of a sum.
\<close>

subsection \<open>Errors\<close>

datatype error = InvalidArgumentError | NotFoundError

definition and_then :: "error + 'a \<Rightarrow> ('a \<Rightarrow> error + 'b) \<Rightarrow> error + 'b" where
  "and_then m f = (case m of Inl e \<Rightarrow> Inl e | Inr x \<Rightarrow> f x)"

subsection \<open>Serialized records\<close>

text \<open>
  A \<^verbatim>\<open>tf.train.Feature\<close> holds one of three lists; a \<^verbatim>\<open>tf.train.Example\<close>
  is a map from feature names to features (a feature whose kind is not set counts as
  absent). A serialized record either decodes to an example or is not a valid message
  at all.
\<close>

datatype feature =
    BytesList "string list"
  | FloatList "real list"
  | Int64List "64 word list"

datatype serialized =
    Undecodable
  | Example "string \<Rightarrow> feature option"

text \<open>
  The result of \<^verbatim>\<open>tf.io.parse_single_example\<close> under the notebook's
  \<^verbatim>\<open>feature_description\<close>: one tensor per declared key, with the declared
  dtype. (The field \<^verbatim>\<open>note\<close> is called \<open>note_id\<close> here: \<open>note\<close> is a keyword
  of Isabelle.) The sparse tensor of \<^verbatim>\<open>qualities_str\<close> is the list of its
  values.
\<close>

record example =
  note_id :: "64 word"
  note_str :: string
  instrument :: "64 word"
  instrument_str :: string
  pitch :: "64 word"
  velocity :: "64 word"
  sample_rate :: "64 word"
  audio :: "real list"
  qualities :: "64 word list"
  qualities_str :: "string list"
  instrument_family :: "64 word"
  instrument_family_str :: string
  instrument_source :: "64 word"
  instrument_source_str :: string

text \<open>
  \<^verbatim>\<open>tf.io.FixedLenFeature([], dtype)\<close>: the key is required (no default value is
  given), the feature must hold the declared kind of list, and exactly one value.
\<close>

definition FixedLenFeature_int64 :: "(string \<Rightarrow> feature option) \<Rightarrow> string \<Rightarrow> error + 64 word" where
  "FixedLenFeature_int64 e key =
     (case e key of
        Some (Int64List [v]) \<Rightarrow> Inr v
      | _ \<Rightarrow> Inl InvalidArgumentError)"

definition FixedLenFeature_string :: "(string \<Rightarrow> feature option) \<Rightarrow> string \<Rightarrow> error + string" where
  "FixedLenFeature_string e key =
     (case e key of
        Some (BytesList [v]) \<Rightarrow> Inr v
      | _ \<Rightarrow> Inl InvalidArgumentError)"

text \<open>
  \<^verbatim>\<open>tf.io.FixedLenFeature([n], dtype)\<close>: as above, with exactly \<open>n\<close> values.
\<close>

definition FixedLenFeature_int64s :: "nat \<Rightarrow> (string \<Rightarrow> feature option) \<Rightarrow> string \<Rightarrow> error + 64 word list" where
  "FixedLenFeature_int64s n e key =
     (case e key of
        Some (Int64List vs) \<Rightarrow> if length vs = n then Inr vs else Inl InvalidArgumentError
      | _ \<Rightarrow> Inl InvalidArgumentError)"

definition FixedLenFeature_float32s :: "nat \<Rightarrow> (string \<Rightarrow> feature option) \<Rightarrow> string \<Rightarrow> error + real list" where
  "FixedLenFeature_float32s n e key =
     (case e key of
        Some (FloatList vs) \<Rightarrow> if length vs = n then Inr vs else Inl InvalidArgumentError
      | _ \<Rightarrow> Inl InvalidArgumentError)"

text \<open>
  \<^verbatim>\<open>tf.io.VarLenFeature(tf.string)\<close>: any number of values; a missing key gives
  the empty sparse tensor; a feature of another kind is an error.
\<close>

definition VarLenFeature_string :: "(string \<Rightarrow> feature option) \<Rightarrow> string \<Rightarrow> error + string list" where
  "VarLenFeature_string e key =
     (case e key of
        None \<Rightarrow> Inr []
      | Some (BytesList vs) \<Rightarrow> Inr vs
      | Some _ \<Rightarrow> Inl InvalidArgumentError)"

definition parse_tfrecord :: "serialized \<Rightarrow> error + example" where
  "parse_tfrecord file =
     (case file of
        Undecodable \<Rightarrow> Inl InvalidArgumentError
      | Example e \<Rightarrow>
          and_then (FixedLenFeature_int64 e ''note'') (\<lambda>v_note.
          and_then (FixedLenFeature_string e ''note_str'') (\<lambda>v_note_str.
          and_then (FixedLenFeature_int64 e ''instrument'') (\<lambda>v_instrument.
          and_then (FixedLenFeature_string e ''instrument_str'') (\<lambda>v_instrument_str.
          and_then (FixedLenFeature_int64 e ''pitch'') (\<lambda>v_pitch.
          and_then (FixedLenFeature_int64 e ''velocity'') (\<lambda>v_velocity.
          and_then (FixedLenFeature_int64 e ''sample_rate'') (\<lambda>v_sample_rate.
          and_then (FixedLenFeature_float32s 64000 e ''audio'') (\<lambda>v_audio.
          and_then (FixedLenFeature_int64s 10 e ''qualities'') (\<lambda>v_qualities.
          and_then (VarLenFeature_string e ''qualities_str'') (\<lambda>v_qualities_str.
          and_then (FixedLenFeature_int64 e ''instrument_family'') (\<lambda>v_instrument_family.
          and_then (FixedLenFeature_string e ''instrument_family_str'') (\<lambda>v_instrument_family_str.
          and_then (FixedLenFeature_int64 e ''instrument_source'') (\<lambda>v_instrument_source.
          and_then (FixedLenFeature_string e ''instrument_source_str'') (\<lambda>v_instrument_source_str.
          Inr \<lparr> note_id = v_note,
                note_str = v_note_str,
                instrument = v_instrument,
                instrument_str = v_instrument_str,
                pitch = v_pitch,
                velocity = v_velocity,
                sample_rate = v_sample_rate,
                audio = v_audio,
                qualities = v_qualities,
                qualities_str = v_qualities_str,
                instrument_family = v_instrument_family,
                instrument_family_str = v_instrument_family_str,
                instrument_source = v_instrument_source,
                instrument_source_str = v_instrument_source_str \<rparr>)))))))))))))))"

subsection \<open>Signal processing: the TensorFlow operations the notebook calls\<close>

definition SR :: nat where "SR = 16000"
definition FFT_SIZE :: nat where "FFT_SIZE = 1024"
definition HOP :: nat where "HOP = 256"
definition N_MELS :: nat where "N_MELS = 128"

text \<open>
  \<^verbatim>\<open>tf.signal.frame\<close> without padding: \<open>max 0 (1 + (length - frame_length) // frame_step)\<close>
  frames, frame \<open>i\<close> starting at sample \<open>i * frame_step\<close>.
\<close>

definition frame :: "'a list \<Rightarrow> nat \<Rightarrow> nat \<Rightarrow> 'a list list" where
  "frame signal frame_length frame_step =
     (let num_frames = nat (max 0 (1 + (int (length signal) - int frame_length) div int frame_step))
      in map (\<lambda>i. take frame_length (drop (i * frame_step) signal)) [0..<num_frames])"

text \<open>
  \<^verbatim>\<open>tf.signal.hann_window\<close> (periodic, the default): the raised cosine
  \<open>0.5 - 0.5 cos (2 \<pi> k / n)\<close>, with \<open>n\<close> the window length when it is even.
\<close>

definition hann_window :: "nat \<Rightarrow> real list" where
  "hann_window window_length =
     (if window_length = 1 then [1]
      else
        let even = 1 - window_length mod 2;
            n = real (window_length + even - 1)
        in map (\<lambda>count. 1 / 2 - 1 / 2 * cos (2 * pi * real count / n)) [0..<window_length])"

text \<open>
  \<^verbatim>\<open>tf.signal.rfft\<close>: the input is cropped or zero-padded to \<open>fft_length\<close>, and the
  first \<open>fft_length div 2 + 1\<close> bins of its discrete Fourier transform are returned.
\<close>

definition rfft :: "real list \<Rightarrow> nat \<Rightarrow> complex list" where
  "rfft input fft_length =
     (let x = take fft_length input @ replicate (fft_length - length input) 0
      in map (\<lambda>k. \<Sum>n\<leftarrow>[0..<fft_length].
                     complex_of_real (x ! n) * cis (- (2 * pi * real k * real n / real fft_length)))
             [0..<fft_length div 2 + 1])"

text \<open>
  \<^verbatim>\<open>tf.signal.stft(signals, frame_length, frame_step, fft_length)\<close>: frame, multiply
  every frame by the Hann window, transform every frame.
\<close>

definition stft :: "real list \<Rightarrow> nat \<Rightarrow> nat \<Rightarrow> nat \<Rightarrow> complex list list" where
  "stft signals frame_length frame_step fft_length =
     (let framed_signals = frame signals frame_length frame_step;
          window = hann_window frame_length;
          framed_signals = map (\<lambda>f. map2 (*) f window) framed_signals
      in map (\<lambda>f. rfft f fft_length) framed_signals)"

text \<open>
  \<^verbatim>\<open>tf.signal.linear_to_mel_weight_matrix\<close>: triangular filters, linear in the mel
  domain, between \<open>num_mel_bins + 2\<close> equally spaced band edges; the row of the DC bin
  is zero. One row per spectrogram bin, one column per mel bin.
\<close>

definition hertz_to_mel :: "real \<Rightarrow> real" where
  "hertz_to_mel frequencies_hertz = 1127 * ln (1 + frequencies_hertz / 700)"

definition linspace :: "real \<Rightarrow> real \<Rightarrow> nat \<Rightarrow> real list" where
  "linspace start stop num =
     map (\<lambda>i. start + (stop - start) * real i / real (num - 1)) [0..<num]"

definition linear_to_mel_weight_matrix :: "nat \<Rightarrow> nat \<Rightarrow> real \<Rightarrow> real \<Rightarrow> real \<Rightarrow> real list list" where
  "linear_to_mel_weight_matrix num_mel_bins num_spectrogram_bins sample_rate'
       lower_edge_hertz upper_edge_hertz =
     (let bands_to_zero = 1;
          nyquist_hertz = sample_rate' / 2;
          linear_frequencies = drop bands_to_zero (linspace 0 nyquist_hertz num_spectrogram_bins);
          spectrogram_bins_mel = map hertz_to_mel linear_frequencies;
          band_edges_mel =
            frame (linspace (hertz_to_mel lower_edge_hertz) (hertz_to_mel upper_edge_hertz)
                     (num_mel_bins + 2)) 3 1;
          mel_weights_matrix =
            map (\<lambda>bin_mel.
                   map (\<lambda>edges.
                          let lower_edge_mel = edges ! 0;
                              center_mel = edges ! 1;
                              upper_edge_mel = edges ! 2;
                              lower_slope = (bin_mel - lower_edge_mel) / (center_mel - lower_edge_mel);
                              upper_slope = (upper_edge_mel - bin_mel) / (upper_edge_mel - center_mel)
                          in max 0 (min lower_slope upper_slope))
                       band_edges_mel)
                spectrogram_bins_mel
      in replicate bands_to_zero (replicate num_mel_bins 0) @ mel_weights_matrix)"

definition mel_mat :: "real list list" where
  "mel_mat = linear_to_mel_weight_matrix N_MELS (FFT_SIZE div 2 + 1) (real SR) 30 (real SR / 2)"

text \<open>
  \<^verbatim>\<open>tf.tensordot(a, b, axes=1)\<close> on two matrices is their product. The number of
  columns of the result is the static shape that the notebook sets with
  \<^verbatim>\<open>set_shape\<close>: the last dimension of \<open>b\<close>, passed here as \<open>cols\<close>.
\<close>

definition tensordot :: "real list list \<Rightarrow> real list list \<Rightarrow> nat \<Rightarrow> real list list" where
  "tensordot a b cols =
     map (\<lambda>row. map (\<lambda>j. \<Sum>k\<leftarrow>[0..<length b]. row ! k * (b ! k ! j)) [0..<cols]) a"

text \<open>
  \<^verbatim>\<open>tf.reduce_mean(m, axis=0)\<close> on a matrix of static shape \<open>[_, cols]\<close>: the mean
  of every column. (With no row at all TensorFlow's mean is NaN; the model's is \<open>0\<close>.
  No parsed example has a waveform that short.)
\<close>

definition reduce_mean_axis0 :: "real list list \<Rightarrow> nat \<Rightarrow> real list" where
  "reduce_mean_axis0 m cols =
     map (\<lambda>j. (\<Sum>row\<leftarrow>m. row ! j) / real (length m)) [0..<cols]"

text \<open>
  \<^verbatim>\<open>tf.cast(_, tf.float32)\<close> of an \<^verbatim>\<open>int64\<close>: the nearest number with a 24-bit
  significand, ties to the even significand. Every \<^verbatim>\<open>int64\<close> is within the range
  of \<^verbatim>\<open>float32\<close>.
\<close>

fun bit_length :: "nat \<Rightarrow> nat" where
  "bit_length n = (if n = 0 then 0 else Suc (bit_length (n div 2)))"

declare bit_length.simps [simp del]

definition round_to_float32 :: "int \<Rightarrow> int" where
  "round_to_float32 v =
     (let a = nat \<bar>v\<bar>;
          e = bit_length a - 24;
          q = a div 2 ^ e;
          r = a mod 2 ^ e;
          q' = (if 2 * r > 2 ^ e \<or> (2 * r = 2 ^ e \<and> odd q) then q + 1 else q)
      in sgn v * int (q' * 2 ^ e))"

definition cast_float32 :: "64 word \<Rightarrow> real" where
  "cast_float32 w = real_of_int (round_to_float32 (sint w))"

subsection \<open>Feature extraction\<close>

definition extract_features :: "example \<Rightarrow> real list \<times> 64 word" where
  "extract_features ex =
     (let audio' = audio ex;
          stft' = stft audio' FFT_SIZE HOP FFT_SIZE;
          spectogram = map (map cmod) stft';
          mel_spec = tensordot spectogram mel_mat N_MELS;
          log_mel_spec = map (map (\<lambda>v. ln (v + 1 / 10 ^ 6))) mel_spec;
          mel = reduce_mean_axis0 log_mel_spec N_MELS;
          feature_vector =
            map cast_float32
              [note_id ex, pitch ex, velocity ex, sample_rate ex, instrument_source ex]
            @ mel
      in (feature_vector, instrument_family ex))"

text \<open>
  The mel portion as the specification words it, entry by entry: the short-time
  Fourier transform of the waveform (frames of 1024 samples every 256 samples, each
  under the Hann window), its magnitude, the projection onto the mel weight matrix,
  the natural logarithm after adding \<^verbatim>\<open>1e-6\<close>, and the mean over the frames. A
  waveform of 64000 samples has 247 frames, and a frame 513 frequency bins.
\<close>

definition spec_hann :: "nat \<Rightarrow> real" where
  "spec_hann n = 1 / 2 - 1 / 2 * cos (2 * pi * real n / 1024)"

definition spec_STFT :: "real list \<Rightarrow> nat \<Rightarrow> nat \<Rightarrow> complex" where
  "spec_STFT a t k =
     (\<Sum>n<1024. complex_of_real (a ! (256 * t + n) * spec_hann n)
                  * cis (- (2 * pi * real k * real n / 1024)))"


subsection \<open>Feature extraction over float32 values with infinities and NaN\<close>

text \<open>
  A \<^verbatim>\<open>float32\<close> is a finite number, an infinity or NaN. \<open>FLT_MAX\<close> is the largest
  finite one. A kernel returns the exact result when its magnitude is at most
  \<open>FLT_MAX\<close> and the infinity of its sign beyond (rounding of results that are in range
  is not modelled); on infinities and NaN the operations are those of IEEE 754:
  \<open>inf - inf\<close> and \<open>inf * 0\<close> are NaN, NaN propagates, \<open>log 0\<close> is \<open>-inf\<close>, the
  logarithm of a negative number is NaN, and the magnitude of a complex number with
  an infinite part is \<open>inf\<close>.
\<close>

datatype float32 = Finite real | PosInf | NegInf | NaN

definition FLT_MAX :: real where
  "FLT_MAX = (2 ^ 24 - 1) * 2 ^ 104"

definition overflow :: "real \<Rightarrow> float32" where
  "overflow r = (if FLT_MAX < r then PosInf else if r < - FLT_MAX then NegInf else Finite r)"

fun f32_add :: "float32 \<Rightarrow> float32 \<Rightarrow> float32" where
  "f32_add NaN y = NaN"
| "f32_add x NaN = NaN"
| "f32_add (Finite a) (Finite b) = overflow (a + b)"
| "f32_add PosInf NegInf = NaN"
| "f32_add NegInf PosInf = NaN"
| "f32_add PosInf y = PosInf"
| "f32_add x PosInf = PosInf"
| "f32_add NegInf y = NegInf"
| "f32_add x NegInf = NegInf"

fun f32_sgn :: "float32 \<Rightarrow> real" where
  "f32_sgn (Finite a) = sgn a"
| "f32_sgn PosInf = 1"
| "f32_sgn NegInf = - 1"
| "f32_sgn NaN = 0"

fun f32_mul :: "float32 \<Rightarrow> float32 \<Rightarrow> float32" where
  "f32_mul NaN y = NaN"
| "f32_mul x NaN = NaN"
| "f32_mul (Finite a) (Finite b) = overflow (a * b)"
| "f32_mul x y =
     (let s = f32_sgn x * f32_sgn y
      in if s = 0 then NaN else if 0 < s then PosInf else NegInf)"

fun f32_log :: "float32 \<Rightarrow> float32" where
  "f32_log (Finite a) = (if 0 < a then Finite (ln a) else if a = 0 then NegInf else NaN)"
| "f32_log PosInf = PosInf"
| "f32_log NegInf = NaN"
| "f32_log NaN = NaN"

definition f32_abs :: "float32 \<times> float32 \<Rightarrow> float32" where
  "f32_abs z =
     (case z of
        (Finite re, Finite im) \<Rightarrow> overflow (sqrt (re ^ 2 + im ^ 2))
      | (re, im) \<Rightarrow>
          if re = PosInf \<or> re = NegInf \<or> im = PosInf \<or> im = NegInf then PosInf else NaN)"

fun value_of :: "float32 \<Rightarrow> real" where
  "value_of (Finite r) = r"
| "value_of x = 0"

text \<open>
  A reduction (the sum inside \<^verbatim>\<open>tensordot\<close>, the mean of \<^verbatim>\<open>reduce_mean\<close>): NaN
  when an input is NaN or both infinities occur, an infinity when one occurs, and
  the exact sum, with overflow, of finite inputs. The mean of no value is \<open>0 / 0\<close>.
\<close>

definition f32_sum :: "float32 list \<Rightarrow> float32" where
  "f32_sum xs =
     (if NaN \<in> set xs \<or> (PosInf \<in> set xs \<and> NegInf \<in> set xs) then NaN
      else if PosInf \<in> set xs then PosInf
      else if NegInf \<in> set xs then NegInf
      else overflow (\<Sum>x\<leftarrow>xs. value_of x))"

definition f32_mean :: "float32 list \<Rightarrow> float32" where
  "f32_mean xs =
     (if xs = [] then NaN
      else case f32_sum xs of Finite s \<Rightarrow> Finite (s / real (length xs)) | x \<Rightarrow> x)"

text \<open>
  The stages of \<^verbatim>\<open>extract_features\<close> over these values. The samples of a parsed
  waveform are finite, and so are the weights of \<open>mel_mat\<close>.
\<close>

definition stft_f32 :: "real list \<Rightarrow> nat \<Rightarrow> nat \<Rightarrow> nat \<Rightarrow> (float32 \<times> float32) list list" where
  "stft_f32 signals frame_length frame_step fft_length =
     map (map (\<lambda>z. (overflow (Re z), overflow (Im z))))
       (stft signals frame_length frame_step fft_length)"

definition tensordot_f32 :: "float32 list list \<Rightarrow> real list list \<Rightarrow> nat \<Rightarrow> float32 list list" where
  "tensordot_f32 a b cols =
     map (\<lambda>row. map (\<lambda>j. f32_sum (map (\<lambda>k. f32_mul (row ! k) (Finite (b ! k ! j))) [0..<length b]))
                  [0..<cols]) a"

definition reduce_mean_axis0_f32 :: "float32 list list \<Rightarrow> nat \<Rightarrow> float32 list" where
  "reduce_mean_axis0_f32 m cols = map (\<lambda>j. f32_mean (map (\<lambda>row. row ! j) m)) [0..<cols]"

text \<open>
  \<open>log_arguments_f32\<close> is \<^verbatim>\<open>mel_spec + 1e-6\<close>, the tensor that
  \<^verbatim>\<open>extract_features\<close> takes the logarithm of.
\<close>

definition log_arguments_f32 :: "example \<Rightarrow> float32 list list" where
  "log_arguments_f32 ex =
     (let stft' = stft_f32 (audio ex) FFT_SIZE HOP FFT_SIZE;
          spectogram = map (map f32_abs) stft';
          mel_spec = tensordot_f32 spectogram mel_mat N_MELS
      in map (map (\<lambda>v. f32_add v (Finite (1 / 10 ^ 6)))) mel_spec)"

definition extract_features_f32 :: "example \<Rightarrow> float32 list \<times> 64 word" where
  "extract_features_f32 ex =
     (let log_mel_spec = map (map f32_log) (log_arguments_f32 ex);
          mel = reduce_mean_axis0_f32 log_mel_spec N_MELS;
          feature_vector =
            map (\<lambda>w. Finite (cast_float32 w))
              [note_id ex, pitch ex, velocity ex, sample_rate ex, instrument_source ex]
            @ mel
      in (feature_vector, instrument_family ex))"

subsection \<open>Loading a file\<close>

definition dataset_sizes :: "(string \<times> nat) list" where
  "dataset_sizes = [(''train'', 289205), (''valid'', 12678), (''test'', 4096)]"

text \<open>Python's \<^verbatim>\<open>str\<close> of a non-negative integer, as the f-string formats it.\<close>

fun str :: "nat \<Rightarrow> string" where
  "str n =
     (if n < 10 then [''0123456789'' ! n] else str (n div 10) @ [''0123456789'' ! (n mod 10)])"

declare str.simps [simp del]

text \<open>
  A \<^verbatim>\<open>tf.data.Dataset\<close> is lazy: it is the list of its elements, each of which
  is produced, or raises, when the iteration reaches it. A file that cannot be opened
  raises on the first step. \<^verbatim>\<open>map\<close> keeps the order of the elements, whatever
  \<^verbatim>\<open>num_parallel_calls\<close> is (the determinism TensorFlow gives by default).
\<close>

type_synonym 'a dataset = "(error + 'a) list"

definition TFRecordDataset :: "(string \<Rightarrow> serialized list option) \<Rightarrow> string \<Rightarrow> serialized dataset" where
  "TFRecordDataset fs path =
     (case fs path of
        None \<Rightarrow> [Inl NotFoundError]
      | Some records \<Rightarrow> map Inr records)"

definition dataset_map :: "('a \<Rightarrow> error + 'b) \<Rightarrow> 'a dataset \<Rightarrow> 'b dataset" where
  "dataset_map f dataset = map (\<lambda>element. and_then element f) dataset"

text \<open>
  The loop \<^verbatim>\<open>for features, label in tqdm(dataset, ...)\<close>, with the lists \<open>X\<close> and
  \<open>y\<close> it appends to. An element that raises ends the function with that exception.
\<close>

fun for_loop ::
  "(real list \<times> 64 word) dataset \<Rightarrow> real list list \<Rightarrow> 64 word list
     \<Rightarrow> error + (real list list \<times> 64 word list)" where
  "for_loop [] X y = Inr (X, y)"
| "for_loop (Inl e # dataset) X y = Inl e"
| "for_loop (Inr (features, label) # dataset) X y = for_loop dataset (X @ [features]) (y @ [label])"

text \<open>
  What a call of \<^verbatim>\<open>process_dataset\<close> does: the line it prints, the total it gives
  the progress bar, and what it returns or raises.
\<close>

record outcome =
  printed :: string
  progress_total :: nat
  returned :: "error + (real list list \<times> 64 word list)"

definition process_dataset :: "(string \<Rightarrow> serialized list option) \<Rightarrow> string \<Rightarrow> outcome" where
  "process_dataset fs path =
     (let dataset = TFRecordDataset fs path;
          count = fold (\<lambda>(split, size) count. if sublist split path then size else count)
                    dataset_sizes 0;
          message = ''Found '' @ str count @ '' examples in dataset'';
          dataset = dataset_map parse_tfrecord dataset;
          dataset = dataset_map (\<lambda>example. Inr (extract_features example)) dataset
      in \<lparr> printed = message,
           progress_total = count,
           returned = for_loop dataset [] [] \<rparr>)"

text \<open>
  The dataset that the loop of \<^verbatim>\<open>process_dataset\<close> iterates over, for a file
  that holds the records \<open>rs\<close>: both maps applied to them.
\<close>

definition pipeline :: "serialized list \<Rightarrow> (real list \<times> 64 word) dataset" where
  "pipeline rs =
     dataset_map (\<lambda>example. Inr (extract_features example))
       (dataset_map parse_tfrecord (map Inr rs))"

text \<open>
  The count as the specification words it: the size of the last key of
  \<^verbatim>\<open>dataset_sizes\<close>, in insertion order, that occurs in the path; \<open>0\<close> when
  none does.
\<close>

definition expected_count :: "string \<Rightarrow> nat" where
  "expected_count path =
     (let matches = filter (\<lambda>(split, size). sublist split path) dataset_sizes
      in if matches = [] then 0 else snd (last matches))"

subsection \<open>A concrete record\<close>

text \<open>
  A record of the dataset's layout, with a silent waveform, and the example it parses
  to. The theorems below are instantiated at it.
\<close>

definition sample_features :: "string \<Rightarrow> feature option" where
  "sample_features =
     map_of
       [(''note'', Int64List [7]),
        (''note_str'', BytesList [''bass_synthetic_033-060-100'']),
        (''instrument'', Int64List [417]),
        (''instrument_str'', BytesList [''bass_synthetic_033'']),
        (''pitch'', Int64List [60]),
        (''velocity'', Int64List [100]),
        (''sample_rate'', Int64List [16000]),
        (''audio'', FloatList (replicate 64000 0)),
        (''qualities'', Int64List (replicate 10 0)),
        (''qualities_str'', BytesList []),
        (''instrument_family'', Int64List [0]),
        (''instrument_family_str'', BytesList [''bass'']),
        (''instrument_source'', Int64List [2]),
        (''instrument_source_str'', BytesList [''synthetic''])]"

definition sample_example :: example where
  "sample_example =
     \<lparr> note_id = 7,
       note_str = ''bass_synthetic_033-060-100'',
       instrument = 417,
       instrument_str = ''bass_synthetic_033'',
       pitch = 60,
       velocity = 100,
       sample_rate = 16000,
       audio = replicate 64000 0,
       qualities = replicate 10 0,
       qualities_str = [],
       instrument_family = 0,
       instrument_family_str = ''bass'',
       instrument_source = 2,
       instrument_source_str = ''synthetic'' \<rparr>"

text \<open>
  A waveform whose samples are all \<^verbatim>\<open>3e38\<close>, a finite \<^verbatim>\<open>float32\<close> value just
  below \<open>FLT_MAX\<close>, in the same record.
\<close>

definition loud_audio :: "real list" where
  "loud_audio = replicate 64000 (3 * 10 ^ 38)"

definition loud_example :: example where
  "loud_example = sample_example\<lparr>audio := loud_audio\<rparr>"

text \<open>
  Three files: two with the same two well-formed records, and one whose second record
  has a waveform of two samples.
\<close>

definition sample_fs :: "string \<Rightarrow> serialized list option" where
  "sample_fs =
     [''../datasets/nsynth-train.tfrecord'' \<mapsto>
        [Example sample_features, Example (sample_features(''pitch'' \<mapsto> Int64List [72]))],
      ''copy.tfrecord'' \<mapsto>
        [Example sample_features, Example (sample_features(''pitch'' \<mapsto> Int64List [72]))],
      ''../datasets/nsynth-test.tfrecord'' \<mapsto>
        [Example sample_features,
         Example (sample_features(''audio'' \<mapsto> FloatList [0, 0])),
         Example sample_features]]"

section \<open>Properties\<close>

subsection \<open>Parsing\<close>

lemma and_then_Inr_iff: "and_then m f = Inr y \<longleftrightarrow> (\<exists>x. m = Inr x \<and> f x = Inr y)"
  by (cases m) (simp_all add: and_then_def)

lemma and_then_Inl_iff:
  "and_then m f = Inl err \<longleftrightarrow> m = Inl err \<or> (\<exists>x. m = Inr x \<and> f x = Inl err)"
  by (cases m) (simp_all add: and_then_def)

lemma FixedLenFeature_int64_iff:
  "FixedLenFeature_int64 e key = Inr v \<longleftrightarrow> e key = Some (Int64List [v])"
  by (auto simp: FixedLenFeature_int64_def split: option.splits feature.splits list.splits)

lemma FixedLenFeature_string_iff:
  "FixedLenFeature_string e key = Inr v \<longleftrightarrow> e key = Some (BytesList [v])"
  by (auto simp: FixedLenFeature_string_def split: option.splits feature.splits list.splits)

lemma FixedLenFeature_int64s_iff:
  "FixedLenFeature_int64s n e key = Inr vs \<longleftrightarrow> e key = Some (Int64List vs) \<and> length vs = n"
  by (auto simp: FixedLenFeature_int64s_def split: option.splits feature.splits)

lemma FixedLenFeature_float32s_iff:
  "FixedLenFeature_float32s n e key = Inr vs \<longleftrightarrow> e key = Some (FloatList vs) \<and> length vs = n"
  by (auto simp: FixedLenFeature_float32s_def split: option.splits feature.splits)

lemma VarLenFeature_string_iff:
  "VarLenFeature_string e key = Inr vs \<longleftrightarrow>
     e key = None \<and> vs = [] \<or> e key = Some (BytesList vs)"
  by (auto simp: VarLenFeature_string_def split: option.splits feature.splits)

lemmas parse_iffs =
  and_then_Inr_iff FixedLenFeature_int64_iff FixedLenFeature_string_iff
  FixedLenFeature_int64s_iff FixedLenFeature_float32s_iff VarLenFeature_string_iff

text \<open>When a record parses, and to what.\<close>

lemma parse_tfrecord_Inr_iff:
  "parse_tfrecord r = Inr ex \<longleftrightarrow>
     (\<exists>e. r = Example e
        \<and> e ''note'' = Some (Int64List [note_id ex])
        \<and> e ''note_str'' = Some (BytesList [note_str ex])
        \<and> e ''instrument'' = Some (Int64List [instrument ex])
        \<and> e ''instrument_str'' = Some (BytesList [instrument_str ex])
        \<and> e ''pitch'' = Some (Int64List [pitch ex])
        \<and> e ''velocity'' = Some (Int64List [velocity ex])
        \<and> e ''sample_rate'' = Some (Int64List [sample_rate ex])
        \<and> e ''audio'' = Some (FloatList (audio ex)) \<and> length (audio ex) = 64000
        \<and> e ''qualities'' = Some (Int64List (qualities ex)) \<and> length (qualities ex) = 10
        \<and> (e ''qualities_str'' = None \<and> qualities_str ex = []
             \<or> e ''qualities_str'' = Some (BytesList (qualities_str ex)))
        \<and> e ''instrument_family'' = Some (Int64List [instrument_family ex])
        \<and> e ''instrument_family_str'' = Some (BytesList [instrument_family_str ex])
        \<and> e ''instrument_source'' = Some (Int64List [instrument_source ex])
        \<and> e ''instrument_source_str'' = Some (BytesList [instrument_source_str ex]))"
proof (cases r)
  case Undecodable
  then show ?thesis by (simp add: parse_tfrecord_def)
next
  case (Example e)
  show ?thesis
  proof (cases ex)
    case (fields a b c d e f g h i j k l m n)
    with Example show ?thesis
      unfolding parse_tfrecord_def by (simp add: parse_iffs)
  qed
qed

lemma FixedLenFeature_Inl:
  "FixedLenFeature_int64 e key = Inl err \<Longrightarrow> err = InvalidArgumentError"
  "FixedLenFeature_string e key = Inl err \<Longrightarrow> err = InvalidArgumentError"
  "FixedLenFeature_int64s n e key = Inl err \<Longrightarrow> err = InvalidArgumentError"
  "FixedLenFeature_float32s n e key = Inl err \<Longrightarrow> err = InvalidArgumentError"
  "VarLenFeature_string e key = Inl err \<Longrightarrow> err = InvalidArgumentError"
  by (auto simp: FixedLenFeature_int64_def FixedLenFeature_string_def FixedLenFeature_int64s_def
        FixedLenFeature_float32s_def VarLenFeature_string_def
      split: option.splits feature.splits list.splits if_splits)

lemma parse_tfrecord_Inl: "parse_tfrecord r = Inl err \<Longrightarrow> err = InvalidArgumentError"
  unfolding parse_tfrecord_def
  by (cases r) (auto simp: and_then_Inl_iff dest: FixedLenFeature_Inl)

lemma parse_tfrecord_cases:
  "parse_tfrecord r = Inl InvalidArgumentError \<or> (\<exists>ex. parse_tfrecord r = Inr ex)"
proof (cases "parse_tfrecord r")
  case (Inl err)
  then show ?thesis using parse_tfrecord_Inl [of r err] by simp
next
  case (Inr ex)
  then show ?thesis by simp
qed

lemma parse_audio_shape:
  assumes "e ''audio'' = Some (FloatList a)" and "length a \<noteq> 64000"
  shows "parse_tfrecord (Example e) = Inl InvalidArgumentError"
  using parse_tfrecord_cases [of "Example e"] assms by (auto simp: parse_tfrecord_Inr_iff)

lemma parse_qualities_shape:
  assumes "e ''qualities'' = Some (Int64List q)" and "length q \<noteq> 10"
  shows "parse_tfrecord (Example e) = Inl InvalidArgumentError"
  using parse_tfrecord_cases [of "Example e"] assms by (auto simp: parse_tfrecord_Inr_iff)

lemma sample_features_simps:
  "sample_features ''note'' = Some (Int64List [7])"
  "sample_features ''note_str'' = Some (BytesList [''bass_synthetic_033-060-100''])"
  "sample_features ''instrument'' = Some (Int64List [417])"
  "sample_features ''instrument_str'' = Some (BytesList [''bass_synthetic_033''])"
  "sample_features ''pitch'' = Some (Int64List [60])"
  "sample_features ''velocity'' = Some (Int64List [100])"
  "sample_features ''sample_rate'' = Some (Int64List [16000])"
  "sample_features ''audio'' = Some (FloatList (replicate 64000 0))"
  "sample_features ''qualities'' = Some (Int64List (replicate 10 0))"
  "sample_features ''qualities_str'' = Some (BytesList [])"
  "sample_features ''instrument_family'' = Some (Int64List [0])"
  "sample_features ''instrument_family_str'' = Some (BytesList [''bass''])"
  "sample_features ''instrument_source'' = Some (Int64List [2])"
  "sample_features ''instrument_source_str'' = Some (BytesList [''synthetic''])"
  by (simp_all add: sample_features_def)

lemma parse_sample: "parse_tfrecord (Example sample_features) = Inr sample_example"
  by (simp add: parse_tfrecord_Inr_iff sample_features_simps) (simp add: sample_example_def)

text \<open>
  C6, as stated: a record parses if and only if it holds every one of the fourteen
  declared features. It does not hold: \<^verbatim>\<open>qualities_str\<close> is declared as a
  \<^verbatim>\<open>VarLenFeature\<close>, and a record without it parses.
\<close>

theorem parse_without_qualities_str:
  "parse_tfrecord (Example (sample_features(''qualities_str'' := None))) = Inr sample_example
   \<and> (sample_features(''qualities_str'' := None)) ''qualities_str'' = None"
  by (simp add: parse_tfrecord_Inr_iff sample_features_simps) (simp add: sample_example_def)

text \<open>
  C6, amended. A decoded record parses to \<open>ex\<close> if and only if each of the thirteen
  \<^verbatim>\<open>FixedLenFeature\<close> keys holds a list of the declared kind and length (one
  value for a scalar, 64000 floats for the waveform, 10 integers for the qualities) whose
  values are the fields of \<open>ex\<close>, and \<^verbatim>\<open>qualities_str\<close> is either absent (the
  field is then empty) or a list of strings of any length. A record that does not
  decode, a waveform of another length and a qualities vector of another length fail.
\<close>

theorem parse_tfrecord_declared_features:
  "(parse_tfrecord (Example e) = Inr ex \<longleftrightarrow>
        e ''note'' = Some (Int64List [note_id ex])
      \<and> e ''note_str'' = Some (BytesList [note_str ex])
      \<and> e ''instrument'' = Some (Int64List [instrument ex])
      \<and> e ''instrument_str'' = Some (BytesList [instrument_str ex])
      \<and> e ''pitch'' = Some (Int64List [pitch ex])
      \<and> e ''velocity'' = Some (Int64List [velocity ex])
      \<and> e ''sample_rate'' = Some (Int64List [sample_rate ex])
      \<and> e ''audio'' = Some (FloatList (audio ex)) \<and> length (audio ex) = 64000
      \<and> e ''qualities'' = Some (Int64List (qualities ex)) \<and> length (qualities ex) = 10
      \<and> (e ''qualities_str'' = None \<and> qualities_str ex = []
           \<or> e ''qualities_str'' = Some (BytesList (qualities_str ex)))
      \<and> e ''instrument_family'' = Some (Int64List [instrument_family ex])
      \<and> e ''instrument_family_str'' = Some (BytesList [instrument_family_str ex])
      \<and> e ''instrument_source'' = Some (Int64List [instrument_source ex])
      \<and> e ''instrument_source_str'' = Some (BytesList [instrument_source_str ex]))
   \<and> parse_tfrecord Undecodable = Inl InvalidArgumentError
   \<and> (\<forall>a. e ''audio'' = Some (FloatList a) \<and> length a \<noteq> 64000
          \<longrightarrow> parse_tfrecord (Example e) = Inl InvalidArgumentError)
   \<and> (\<forall>q. e ''qualities'' = Some (Int64List q) \<and> length q \<noteq> 10
          \<longrightarrow> parse_tfrecord (Example e) = Inl InvalidArgumentError)"
proof -
  have "parse_tfrecord Undecodable = Inl InvalidArgumentError"
    by (simp add: parse_tfrecord_def)
  then show ?thesis
    using parse_audio_shape [of e] parse_qualities_shape [of e]
    by (simp add: parse_tfrecord_Inr_iff)
qed

theorem parse_tfrecord_declared_features_witness:
  "parse_tfrecord (Example sample_features) = Inr sample_example
   \<and> parse_tfrecord (Example (sample_features(''audio'' \<mapsto> FloatList [0])))
       = Inl InvalidArgumentError"
  using parse_tfrecord_declared_features [of sample_features sample_example]
    parse_tfrecord_declared_features [of "sample_features(''audio'' \<mapsto> FloatList [0])" sample_example]
  by (simp add: sample_features_simps) (simp add: sample_example_def)

subsection \<open>The shape of the feature vector\<close>

lemma length_reduce_mean_axis0: "length (reduce_mean_axis0 m cols) = cols"
  by (simp add: reduce_mean_axis0_def)

text \<open>
  C1. The feature vector of every example is 5 metadata components followed by the
  128 components of the mel summary: 133 components, whatever the example.
\<close>

theorem extract_features_length:
  "\<exists>metadata mel.
     fst (extract_features ex) = metadata @ mel \<and> length metadata = 5 \<and> length mel = 128
     \<and> length (fst (extract_features ex)) = 133"
proof -
  let ?metadata =
    "map cast_float32 [note_id ex, pitch ex, velocity ex, sample_rate ex, instrument_source ex]"
  let ?mel =
    "reduce_mean_axis0
       (map (map (\<lambda>v. ln (v + 1 / 10 ^ 6)))
          (tensordot (map (map cmod) (stft (audio ex) FFT_SIZE HOP FFT_SIZE)) mel_mat N_MELS))
       N_MELS"
  have split: "fst (extract_features ex) = ?metadata @ ?mel"
    by (simp add: extract_features_def Let_def)
  have meta: "length ?metadata = 5"
    by simp
  have mel: "length ?mel = 128"
    by (simp add: length_reduce_mean_axis0 N_MELS_def)
  from split meta mel have "length (fst (extract_features ex)) = 133"
    by simp
  with split meta mel show ?thesis
    by blast
qed

subsection \<open>The metadata components\<close>

lemma bit_length_le: "n < 2 ^ k \<Longrightarrow> bit_length n \<le> k"
proof (induction k arbitrary: n)
  case 0
  then show ?case by (simp add: bit_length.simps)
next
  case (Suc k)
  show ?case
  proof (cases "n = 0")
    case True
    then show ?thesis by (simp add: bit_length.simps)
  next
    case False
    from Suc.prems have "n div 2 < 2 ^ k" by simp
    then have "bit_length (n div 2) \<le> k" by (rule Suc.IH)
    with False show ?thesis by (subst bit_length.simps) simp
  qed
qed

lemma bit_length_two_24: "bit_length 16777216 = 25"
  by (simp add: bit_length.simps)

lemma round_to_float32_exact:
  assumes "\<bar>v\<bar> \<le> 2 ^ 24"
  shows "round_to_float32 v = v"
proof (cases "\<bar>v\<bar> = 2 ^ 24")
  case True
  then have a: "nat \<bar>v\<bar> = 16777216" by simp
  have "round_to_float32 v = sgn v * 2 ^ 24"
    unfolding round_to_float32_def Let_def a bit_length_two_24 by simp
  also have "\<dots> = v" using True by (cases "v < 0") (simp_all add: sgn_if)
  finally show ?thesis .
next
  case False
  with assms have "nat \<bar>v\<bar> < 2 ^ 24" by simp
  then have "bit_length (nat \<bar>v\<bar>) \<le> 24" by (rule bit_length_le)
  then have e: "bit_length (nat \<bar>v\<bar>) - 24 = 0" by simp
  have "round_to_float32 v = sgn v * \<bar>v\<bar>"
    unfolding round_to_float32_def Let_def e by simp
  also have "\<dots> = v" by (simp add: sgn_if)
  finally show ?thesis .
qed

lemma cast_float32_exact: "\<bar>sint w\<bar> \<le> 2 ^ 24 \<Longrightarrow> cast_float32 w = real_of_int (sint w)"
  by (simp add: cast_float32_def round_to_float32_exact)

text \<open>
  C2. The first five components of the feature vector are the \<^verbatim>\<open>float32\<close> casts
  of the fields note, pitch, velocity, sample_rate and instrument_source of the example,
  in this order, with nothing else applied to them; a field of magnitude at most
  \<open>2 ^ 24\<close> is its own cast.
\<close>

theorem extract_features_metadata:
  "take 5 (fst (extract_features ex)) =
     map cast_float32 [note_id ex, pitch ex, velocity ex, sample_rate ex, instrument_source ex]
   \<and> (\<forall>w \<in> set [note_id ex, pitch ex, velocity ex, sample_rate ex, instrument_source ex].
          \<bar>sint w\<bar> \<le> 2 ^ 24 \<longrightarrow> cast_float32 w = real_of_int (sint w))"
  by (simp add: extract_features_def Let_def cast_float32_exact)

theorem extract_features_metadata_witness:
  "take 5 (fst (extract_features sample_example)) = [7, 60, 100, 16000, 2]"
  using extract_features_metadata [of sample_example]
  by (simp add: sample_example_def)

subsection \<open>What the result depends on\<close>

text \<open>
  C8. The label is the field instrument_family of the example, and the feature vector
  is the same for two examples that differ only in instrument_family and
  instrument_family_str.
\<close>

theorem extract_features_label:
  "snd (extract_features ex) = instrument_family ex
   \<and> fst (extract_features (ex\<lparr>instrument_family := family, instrument_family_str := family_str\<rparr>))
       = fst (extract_features ex)"
  by (simp add: extract_features_def Let_def)


subsection \<open>Loading a file\<close>

lemma pipeline_Nil: "pipeline [] = []"
  by (simp add: pipeline_def dataset_map_def)

lemma pipeline_Cons:
  "pipeline (r # rs) =
     (case parse_tfrecord r of Inl e \<Rightarrow> Inl e | Inr ex \<Rightarrow> Inr (extract_features ex)) # pipeline rs"
  by (simp add: pipeline_def dataset_map_def and_then_def)

lemma for_loop_all_parse:
  "map parse_tfrecord rs = map Inr exs \<Longrightarrow>
   for_loop (pipeline rs) X y =
     Inr (X @ map (\<lambda>ex. fst (extract_features ex)) exs, y @ map (\<lambda>ex. snd (extract_features ex)) exs)"
proof (induction rs arbitrary: exs X y)
  case Nil
  then show ?case by (simp add: pipeline_Nil)
next
  case (Cons r rs)
  from Cons.prems obtain ex exs' where exs: "exs = ex # exs'"
    and r: "parse_tfrecord r = Inr ex" and rs: "map parse_tfrecord rs = map Inr exs'"
    by (cases exs) auto
  obtain features label where fl: "extract_features ex = (features, label)"
    by (cases "extract_features ex")
  have "for_loop (pipeline (r # rs)) X y = for_loop (pipeline rs) (X @ [features]) (y @ [label])"
    by (simp add: pipeline_Cons r fl)
  also have "\<dots> = Inr ((X @ [features]) @ map (\<lambda>ex. fst (extract_features ex)) exs',
                        (y @ [label]) @ map (\<lambda>ex. snd (extract_features ex)) exs')"
    by (rule Cons.IH [OF rs])
  finally show ?case by (simp add: exs fl)
qed

lemma for_loop_first_failure:
  "i < length rs \<Longrightarrow> \<forall>j<i. \<exists>ex. parse_tfrecord (rs ! j) = Inr ex \<Longrightarrow>
   parse_tfrecord (rs ! i) = Inl e \<Longrightarrow> for_loop (pipeline rs) X y = Inl e"
proof (induction rs arbitrary: i X y)
  case Nil
  then show ?case by simp
next
  case (Cons r rs)
  show ?case
  proof (cases i)
    case 0
    with Cons.prems show ?thesis by (simp add: pipeline_Cons)
  next
    case (Suc k)
    with Cons.prems obtain ex where r: "parse_tfrecord r = Inr ex" by fastforce
    obtain features label where fl: "extract_features ex = (features, label)"
      by (cases "extract_features ex")
    have k: "k < length rs" using Cons.prems(1) Suc by simp
    have before: "\<forall>j<k. \<exists>ex. parse_tfrecord (rs ! j) = Inr ex"
      using Cons.prems(2) Suc by fastforce
    have at: "parse_tfrecord (rs ! k) = Inl e"
      using Cons.prems(3) Suc by simp
    have "for_loop (pipeline (r # rs)) X y = for_loop (pipeline rs) (X @ [features]) (y @ [label])"
      by (simp add: pipeline_Cons r fl)
    also have "\<dots> = Inl e"
      by (rule Cons.IH [OF k before at])
    finally show ?thesis .
  qed
qed

lemma first_failure:
  assumes "r \<in> set rs" and "parse_tfrecord r = Inl e"
  shows "\<exists>i<length rs. (\<forall>j<i. \<exists>ex. parse_tfrecord (rs ! j) = Inr ex)
           \<and> (\<exists>e'. parse_tfrecord (rs ! i) = Inl e')"
proof -
  let ?bad = "\<lambda>i. i < length rs \<and> (\<exists>e'. parse_tfrecord (rs ! i) = Inl e')"
  from assms obtain i0 where "?bad i0" by (auto simp: in_set_conv_nth)
  define i where "i = (LEAST i. ?bad i)"
  have bad: "?bad i" unfolding i_def using \<open>?bad i0\<close> by (rule LeastI)
  have "\<exists>ex. parse_tfrecord (rs ! j) = Inr ex" if "j < i" for j
  proof -
    from that have "\<not> ?bad j" unfolding i_def by (rule not_less_Least)
    moreover from that bad have "j < length rs" by simp
    ultimately show ?thesis by (cases "parse_tfrecord (rs ! j)") auto
  qed
  with bad show ?thesis by blast
qed

lemma returned_process_dataset:
  "fs path = Some rs \<Longrightarrow> returned (process_dataset fs path) = for_loop (pipeline rs) [] []"
  by (simp add: process_dataset_def Let_def TFRecordDataset_def pipeline_def)

lemma sample_fs_simps:
  "sample_fs ''../datasets/nsynth-train.tfrecord'' =
     Some [Example sample_features, Example (sample_features(''pitch'' \<mapsto> Int64List [72]))]"
  "sample_fs ''copy.tfrecord'' =
     Some [Example sample_features, Example (sample_features(''pitch'' \<mapsto> Int64List [72]))]"
  "sample_fs ''../datasets/nsynth-test.tfrecord'' =
     Some [Example sample_features,
           Example (sample_features(''audio'' \<mapsto> FloatList [0, 0])),
           Example sample_features]"
  by (simp_all add: sample_fs_def)

lemma parse_sample_pitch:
  "parse_tfrecord (Example (sample_features(''pitch'' \<mapsto> Int64List [72])))
     = Inr (sample_example\<lparr>pitch := 72\<rparr>)"
  by (simp add: parse_tfrecord_Inr_iff sample_features_simps) (simp add: sample_example_def)

text \<open>
  C4. When every record of the file parses, \<^verbatim>\<open>process_dataset\<close> returns two
  lists \<open>X\<close> and \<open>y\<close> as long as the file, and their \<open>i\<close>-th entries are the feature
  vector and the label of the \<open>i\<close>-th record: the result of the in-order composition
  of decoding and feature extraction.
\<close>

theorem process_dataset_in_order:
  assumes "fs path = Some rs" and "\<forall>r\<in>set rs. \<exists>ex. parse_tfrecord r = Inr ex"
  shows "\<exists>X y. returned (process_dataset fs path) = Inr (X, y)
           \<and> length X = length rs \<and> length y = length rs
           \<and> (\<forall>i<length rs. \<exists>ex. parse_tfrecord (rs ! i) = Inr ex
                                   \<and> (X ! i, y ! i) = extract_features ex)"
proof -
  from assms(2) obtain f where f: "\<forall>r\<in>set rs. parse_tfrecord r = Inr (f r)"
    by (rule bchoice [THEN exE])
  let ?exs = "map f rs"
  let ?X = "map (\<lambda>ex. fst (extract_features ex)) ?exs"
  let ?y = "map (\<lambda>ex. snd (extract_features ex)) ?exs"
  have "map parse_tfrecord rs = map Inr ?exs"
    using f by simp
  then have "for_loop (pipeline rs) [] [] = Inr ([] @ ?X, [] @ ?y)"
    by (rule for_loop_all_parse)
  then have ret: "returned (process_dataset fs path) = Inr (?X, ?y)"
    using assms(1) by (simp add: returned_process_dataset [of fs path rs])
  have "\<exists>ex. parse_tfrecord (rs ! i) = Inr ex \<and> (?X ! i, ?y ! i) = extract_features ex"
    if "i < length rs" for i
    using that f by simp
  with ret show ?thesis
    by (intro exI [of _ ?X] exI [of _ ?y]) simp
qed

theorem process_dataset_in_order_witness:
  "\<exists>X y. returned (process_dataset sample_fs ''../datasets/nsynth-train.tfrecord'') = Inr (X, y)
     \<and> length X = 2 \<and> length y = 2
     \<and> (X ! 0, y ! 0) = extract_features sample_example
     \<and> (X ! 1, y ! 1) = extract_features (sample_example\<lparr>pitch := 72\<rparr>)"
proof -
  let ?rs = "[Example sample_features, Example (sample_features(''pitch'' \<mapsto> Int64List [72]))]"
  have "\<forall>r\<in>set ?rs. \<exists>ex. parse_tfrecord r = Inr ex"
    by (simp add: parse_sample parse_sample_pitch)
  with process_dataset_in_order [of sample_fs "''../datasets/nsynth-train.tfrecord''" ?rs]
    sample_fs_simps(1)
  obtain X y where ret: "returned (process_dataset sample_fs ''../datasets/nsynth-train.tfrecord'') = Inr (X, y)"
    and len: "length X = 2" "length y = 2"
    and nth: "\<forall>i<length ?rs. \<exists>ex. parse_tfrecord (?rs ! i) = Inr ex \<and> (X ! i, y ! i) = extract_features ex"
    by auto
  from nth [rule_format, of 0] have "(X ! 0, y ! 0) = extract_features sample_example"
    by (simp add: parse_sample)
  moreover from nth [rule_format, of 1]
  have "(X ! 1, y ! 1) = extract_features (sample_example\<lparr>pitch := 72\<rparr>)"
    by (simp add: parse_sample_pitch)
  ultimately show ?thesis using ret len by blast
qed

text \<open>
  C5. When some record of the file does not parse, \<^verbatim>\<open>process_dataset\<close> raises the
  error of the parse: the error of the first record that fails, after records that all
  parsed. Nothing is returned.
\<close>

theorem process_dataset_propagates_failure:
  assumes "fs path = Some rs" and "r \<in> set rs" and "parse_tfrecord r = Inl e"
  shows "returned (process_dataset fs path) = Inl e
         \<and> (\<exists>i<length rs. (\<forall>j<i. \<exists>ex. parse_tfrecord (rs ! j) = Inr ex)
               \<and> (\<exists>e'. parse_tfrecord (rs ! i) = Inl e'
                     \<and> returned (process_dataset fs path) = Inl e'))"
proof -
  from first_failure [OF assms(2,3)] obtain i e' where i: "i < length rs"
    and before: "\<forall>j<i. \<exists>ex. parse_tfrecord (rs ! j) = Inr ex"
    and at: "parse_tfrecord (rs ! i) = Inl e'"
    by blast
  have "for_loop (pipeline rs) [] [] = Inl e'"
    by (rule for_loop_first_failure [OF i before at])
  then have ret: "returned (process_dataset fs path) = Inl e'"
    using assms(1) by (simp add: returned_process_dataset [of fs path rs])
  have "e' = e"
    using parse_tfrecord_Inl [OF at] parse_tfrecord_Inl [OF assms(3)] by simp
  with ret i before at show ?thesis by blast
qed

theorem process_dataset_propagates_failure_witness:
  "returned (process_dataset sample_fs ''../datasets/nsynth-test.tfrecord'') = Inl InvalidArgumentError"
proof -
  let ?bad = "Example (sample_features(''audio'' \<mapsto> FloatList [0, 0]))"
  have "parse_tfrecord ?bad = Inl InvalidArgumentError"
    by (rule parse_audio_shape [of _ "[0, 0]"]) simp_all
  with process_dataset_propagates_failure
         [of sample_fs "''../datasets/nsynth-test.tfrecord''" _ ?bad InvalidArgumentError]
    sample_fs_simps(3)
  show ?thesis by simp
qed

subsection \<open>The printed count\<close>

lemma fold_last_match:
  "fold (\<lambda>(split, size) count. if P split then size else count) xs c =
     (let matches = filter (\<lambda>(split, size). P split) xs
      in if matches = [] then c else snd (last matches))"
  by (induction xs arbitrary: c) (auto simp: Let_def)

lemma count_process_dataset:
  "fold (\<lambda>(split, size) count. if sublist split path then size else count) dataset_sizes 0
     = expected_count path"
  unfolding expected_count_def by (rule fold_last_match)


text \<open>
  C10. The printed count and the total of the progress bar are the size of the last
  key of \<^verbatim>\<open>dataset_sizes\<close> that occurs in the path, or \<open>0\<close>; what is returned
  is determined by the records of the file, whatever the path and its count are.
\<close>

theorem process_dataset_count:
  "printed (process_dataset fs path) = ''Found '' @ str (expected_count path) @ '' examples in dataset''
   \<and> progress_total (process_dataset fs path) = expected_count path
   \<and> (\<forall>fs' path'. fs' path' = fs path \<longrightarrow>
         returned (process_dataset fs' path') = returned (process_dataset fs path))"
  by (simp add: process_dataset_def Let_def count_process_dataset TFRecordDataset_def)


theorem process_dataset_count_witness:
  "printed (process_dataset sample_fs ''../datasets/nsynth-train.tfrecord'')
     = ''Found 289205 examples in dataset''
   \<and> progress_total (process_dataset sample_fs ''../datasets/nsynth-train.tfrecord'') = 289205
   \<and> printed (process_dataset sample_fs ''copy.tfrecord'') = ''Found 0 examples in dataset''
   \<and> returned (process_dataset sample_fs ''copy.tfrecord'')
       = returned (process_dataset sample_fs ''../datasets/nsynth-train.tfrecord'')"
proof -
  have train: "expected_count ''../datasets/nsynth-train.tfrecord'' = 289205"
    by (simp add: expected_count_def dataset_sizes_def sublist_Cons_right)
  have copy: "expected_count ''copy.tfrecord'' = 0"
    by (simp add: expected_count_def dataset_sizes_def sublist_Cons_right)
  have digits: "str 289205 = ''289205''" "str 0 = ''0''"
    by (simp_all add: str.simps)
  note t = process_dataset_count [of sample_fs "''../datasets/nsynth-train.tfrecord''"]
  note c = process_dataset_count [of sample_fs "''copy.tfrecord''"]
  have "printed (process_dataset sample_fs ''../datasets/nsynth-train.tfrecord'')
          = ''Found 289205 examples in dataset''"
    using t [THEN conjunct1] by (simp add: train digits)
  moreover have "progress_total (process_dataset sample_fs ''../datasets/nsynth-train.tfrecord'') = 289205"
    using t [THEN conjunct2, THEN conjunct1] by (simp add: train)
  moreover have "printed (process_dataset sample_fs ''copy.tfrecord'') = ''Found 0 examples in dataset''"
    using c [THEN conjunct1] by (simp add: copy digits)
  moreover have "returned (process_dataset sample_fs ''copy.tfrecord'')
       = returned (process_dataset sample_fs ''../datasets/nsynth-train.tfrecord'')"
    by (rule t [THEN conjunct2, THEN conjunct2, rule_format]) (simp add: sample_fs_simps)
  ultimately show ?thesis by simp
qed


subsection \<open>The mel portion\<close>

lemma sum_list_upt: "sum_list (map f [0..<n]) = (\<Sum>i<n. f i)"
  by (simp add: interv_sum_list_conv_sum_set_nat atLeast0LessThan)

lemma frame_audio:
  assumes "length a = 64000"
  shows "frame a 1024 256 = map (\<lambda>t. take 1024 (drop (t * 256) a)) [0..<247]"
  using assms by (simp add: frame_def)

lemma hann_window_1024: "hann_window 1024 = map spec_hann [0..<1024]"
  by (simp add: hann_window_def spec_hann_def Let_def)

lemma windowed_frame:
  assumes "length a = 64000" and "t < 247"
  shows "map2 (*) (take 1024 (drop (t * 256) a)) (map spec_hann [0..<1024])
           = map (\<lambda>n. a ! (256 * t + n) * spec_hann n) [0..<1024]"
proof (rule nth_equalityI)
  from assms show len: "length (map2 (*) (take 1024 (drop (t * 256) a)) (map spec_hann [0..<1024]))
      = length (map (\<lambda>n. a ! (256 * t + n) * spec_hann n) [0..<1024])"
    by simp
  fix n
  assume "n < length (map2 (*) (take 1024 (drop (t * 256) a)) (map spec_hann [0..<1024]))"
  with len have n: "n < 1024" by simp
  with assms show "map2 (*) (take 1024 (drop (t * 256) a)) (map spec_hann [0..<1024]) ! n
      = map (\<lambda>n. a ! (256 * t + n) * spec_hann n) [0..<1024] ! n"
    by (simp add: mult.commute)
qed

lemma rfft_full:
  assumes "length f = N"
  shows "rfft f N =
     map (\<lambda>k. \<Sum>n<N. complex_of_real (f ! n) * cis (- (2 * pi * real k * real n / real N)))
       [0..<N div 2 + 1]"
  using assms by (simp add: rfft_def Let_def sum_list_upt)

lemma stft_audio:
  assumes "length a = 64000"
  shows "stft a 1024 256 1024 = map (\<lambda>t. map (\<lambda>k. spec_STFT a t k) [0..<513]) [0..<247]"
proof -
  have "rfft (map2 (*) (take 1024 (drop (t * 256) a)) (map spec_hann [0..<1024])) 1024
          = map (\<lambda>k. spec_STFT a t k) [0..<513]" if "t < 247" for t
  proof -
    let ?f = "map (\<lambda>n. a ! (256 * t + n) * spec_hann n) [0..<1024]"
    have "rfft ?f 1024 =
       map (\<lambda>k. \<Sum>n<1024. complex_of_real (?f ! n) * cis (- (2 * pi * real k * real n / real (1024::nat))))
         [0..<1024 div 2 + 1]"
      by (rule rfft_full) simp
    also have "\<dots> = map (\<lambda>k. spec_STFT a t k) [0..<513]"
      by (simp add: spec_STFT_def)
    finally show ?thesis
      by (simp add: windowed_frame [OF assms that])
  qed
  then show ?thesis
    by (simp add: stft_def Let_def frame_audio [OF assms] hann_window_1024)
qed

lemma length_linspace: "length (linspace a b n) = n"
  by (simp add: linspace_def)

lemma length_mel_mat: "length mel_mat = 513"
  by (simp add: mel_mat_def linear_to_mel_weight_matrix_def Let_def length_linspace FFT_SIZE_def)

lemma tensordot_tabulate:
  "tensordot (map (\<lambda>t. map (S t) [0..<length b]) [0..<T]) b c
     = map (\<lambda>t. map (\<lambda>j. \<Sum>k<length b. S t k * (b ! k ! j)) [0..<c]) [0..<T]"
  by (simp add: tensordot_def sum_list_upt)

lemma reduce_mean_tabulate:
  "reduce_mean_axis0 (map (\<lambda>t. map (L t) [0..<c]) [0..<T]) c
     = map (\<lambda>j. (\<Sum>t<T. L t j) / real T) [0..<c]"
  by (simp add: reduce_mean_axis0_def comp_def sum_list_upt)



subsection \<open>The argument of the logarithm\<close>

text \<open>
  The weights of the mel matrix are not negative, so that, in the arithmetic of the
  reals, every entry of the mel spectrogram of a parsed example is at least \<open>0\<close> and
  the logarithm is taken of a number that is at least \<^verbatim>\<open>1e-6\<close>.
\<close>

lemma mel_mat_rows:
  assumes "row \<in> set mel_mat"
  shows "length row = 128" and "\<forall>v\<in>set row. 0 \<le> v"
  using assms
  by (auto simp: mel_mat_def linear_to_mel_weight_matrix_def Let_def frame_def length_linspace
        N_MELS_def)

lemma mel_mat_nonneg:
  assumes "k < 513" and "j < 128"
  shows "0 \<le> mel_mat ! k ! j"
proof -
  from assms(1) have row: "mel_mat ! k \<in> set mel_mat"
    by (simp add: length_mel_mat)
  with assms(2) have "mel_mat ! k ! j \<in> set (mel_mat ! k)"
    by (simp add: mel_mat_rows(1))
  with mel_mat_rows(2) [OF row] show ?thesis by blast
qed

lemma log_argument_ge:
  assumes "parse_tfrecord r = Inr ex"
    and "row \<in> set (tensordot (map (map cmod) (stft (audio ex) FFT_SIZE HOP FFT_SIZE)) mel_mat N_MELS)"
    and "v \<in> set row"
  shows "0 \<le> v" and "1 / 10 ^ 6 \<le> v + 1 / 10 ^ 6" and "0 < v + 1 / 10 ^ 6"
proof -
  from assms(2) obtain srow where srow: "srow \<in> set (stft (audio ex) FFT_SIZE HOP FFT_SIZE)"
    and row: "row = map (\<lambda>j. \<Sum>k\<leftarrow>[0..<length mel_mat]. map cmod srow ! k * (mel_mat ! k ! j)) [0..<N_MELS]"
    by (auto simp: tensordot_def)
  from assms(1) have len: "length (audio ex) = 64000"
    by (auto simp: parse_tfrecord_Inr_iff)
  from srow have "length srow = 513"
    by (auto simp: FFT_SIZE_def HOP_def stft_audio [OF len])
  from assms(3) row obtain j where j: "j < 128"
    and v: "v = (\<Sum>k<513. map cmod srow ! k * (mel_mat ! k ! j))"
    by (auto simp: N_MELS_def sum_list_upt length_mel_mat)
  have "0 \<le> map cmod srow ! k * (mel_mat ! k ! j)" if "k < 513" for k
    using that j \<open>length srow = 513\<close> by (simp add: mel_mat_nonneg)
  then show "0 \<le> v"
    unfolding v by (intro sum_nonneg) simp
  then show "1 / 10 ^ 6 \<le> v + 1 / 10 ^ 6" and "0 < v + 1 / 10 ^ 6"
    by simp_all
qed


text \<open>The Hann window sums to more than \<open>3 / 2\<close>, so the DC bin of the loud waveform overflows.\<close>

lemma spec_hann_nonneg: "0 \<le> spec_hann n"
proof -
  have "cos (2 * pi * real n / 1024) \<le> 1" by (rule cos_le_one)
  then show ?thesis by (simp add: spec_hann_def)
qed

lemma spec_hann_256: "spec_hann 256 = 1 / 2"
proof -
  have "2 * pi * real (256::nat) / 1024 = pi / 2" by simp
  then show ?thesis by (simp add: spec_hann_def)
qed

lemma spec_hann_512: "spec_hann 512 = 1"
proof -
  have "2 * pi * real (512::nat) / 1024 = pi" by simp
  then show ?thesis by (simp add: spec_hann_def)
qed

lemma hann_sum_ge: "3 / 2 \<le> (\<Sum>n<1024. spec_hann n)"
proof -
  have "(\<Sum>n\<in>{256, 512}. spec_hann n) \<le> (\<Sum>n<1024. spec_hann n)"
    by (rule sum_mono2) (auto simp: spec_hann_nonneg)
  then show ?thesis by (simp add: spec_hann_256 spec_hann_512)
qed

lemma spec_STFT_constant_dc:
  assumes "t < 247" and "\<forall>i<64000. a ! i = c"
  shows "spec_STFT a t 0 = complex_of_real (c * (\<Sum>n<1024. spec_hann n))"
proof -
  have "complex_of_real (a ! (256 * t + n) * spec_hann n)
          * cis (- (2 * pi * real (0::nat) * real n / 1024))
        = complex_of_real (c * spec_hann n)" if "n < 1024" for n
    using that assms by simp
  then have "spec_STFT a t 0 = (\<Sum>n<1024. complex_of_real (c * spec_hann n))"
    unfolding spec_STFT_def by (intro sum.cong) auto
  then show ?thesis by (simp add: sum_distrib_left)
qed

lemma length_loud_audio: "length loud_audio = 64000"
  by (simp add: loud_audio_def)

lemma loud_audio_overflows: "FLT_MAX < 3 * 10 ^ 38 * (\<Sum>n<1024. spec_hann n)"
proof -
  have "FLT_MAX < 3 * 10 ^ 38 * (3 / 2 :: real)"
    by (simp add: FLT_MAX_def)
  also have "\<dots> \<le> 3 * 10 ^ 38 * (\<Sum>n<1024. spec_hann n)"
    using hann_sum_ge by simp
  finally show ?thesis .
qed

lemma loud_abs_dc:
  assumes "t < 247"
  shows "f32_abs (overflow (Re (spec_STFT loud_audio t 0)),
                  overflow (Im (spec_STFT loud_audio t 0))) = PosInf"
proof -
  have "\<forall>i<64000. loud_audio ! i = 3 * 10 ^ 38"
    by (simp add: loud_audio_def)
  then have dc: "spec_STFT loud_audio t 0 = complex_of_real (3 * 10 ^ 38 * (\<Sum>n<1024. spec_hann n))"
    by (rule spec_STFT_constant_dc [OF assms])
  have "0 \<le> FLT_MAX" by (simp add: FLT_MAX_def)
  with loud_audio_overflows show ?thesis
    unfolding dc by (simp add: overflow_def f32_abs_def)
qed

lemma mel_mat_row_0: "j < 128 \<Longrightarrow> mel_mat ! 0 ! j = 0"
  by (simp add: mel_mat_def linear_to_mel_weight_matrix_def Let_def N_MELS_def)

lemma f32_sum_NaN: "NaN \<in> set xs \<Longrightarrow> f32_sum xs = NaN"
  by (simp add: f32_sum_def)

lemma f32_mean_replicate_NaN: "0 < n \<Longrightarrow> f32_mean (replicate n NaN) = NaN"
  by (simp add: f32_mean_def f32_sum_def)

lemma loud_log_arguments:
  "log_arguments_f32 loud_example = replicate 247 (replicate 128 NaN)"
proof -
  define row where "row t =
      map f32_abs (map (\<lambda>z. (overflow (Re z), overflow (Im z))) (map (spec_STFT loud_audio t) [0..<513]))"
    for t
  have spect: "map (map f32_abs) (stft_f32 loud_audio FFT_SIZE HOP FFT_SIZE) = map row [0..<247]"
    by (simp add: stft_f32_def FFT_SIZE_def HOP_def stft_audio [OF length_loud_audio] row_def)
  have row0: "row t ! 0 = PosInf" if "t < 247" for t
  proof -
    have "row t ! 0 = f32_abs (overflow (Re (spec_STFT loud_audio t 0)),
                               overflow (Im (spec_STFT loud_audio t 0)))"
      by (simp add: row_def)
    with loud_abs_dc [OF that] show ?thesis by simp
  qed
  have entry: "f32_sum (map (\<lambda>k. f32_mul (row t ! k) (Finite (mel_mat ! k ! j))) [0..<length mel_mat]) = NaN"
    if "t < 247" and "j < 128" for t j
  proof (rule f32_sum_NaN)
    let ?F = "\<lambda>k. f32_mul (row t ! k) (Finite (mel_mat ! k ! j))"
    have "?F 0 = NaN"
      using that by (simp add: row0 mel_mat_row_0)
    moreover have "?F 0 \<in> ?F ` set [0..<length mel_mat]"
      by (rule imageI) (simp add: length_mel_mat)
    ultimately show "NaN \<in> set (map ?F [0..<length mel_mat])"
      by (simp only: set_map)
  qed
  have inner: "map (\<lambda>j. f32_sum (map (\<lambda>k. f32_mul (row t ! k) (Finite (mel_mat ! k ! j)))
                                    [0..<length mel_mat])) [0..<128]
      = replicate 128 NaN" if "t < 247" for t
  proof -
    have "map (\<lambda>j. f32_sum (map (\<lambda>k. f32_mul (row t ! k) (Finite (mel_mat ! k ! j)))
                                [0..<length mel_mat])) [0..<128]
        = map (\<lambda>j. NaN) [0..<128]"
      by (rule map_cong) (simp_all add: entry that)
    then show ?thesis by (simp add: map_replicate_const)
  qed
  have "map (\<lambda>t. map (\<lambda>j. f32_sum (map (\<lambda>k. f32_mul (row t ! k) (Finite (mel_mat ! k ! j)))
                                          [0..<length mel_mat])) [0..<128]) [0..<247]
      = map (\<lambda>t. replicate 128 NaN) [0..<247]"
    by (rule map_cong) (simp_all add: inner)
  then have "tensordot_f32 (map row [0..<247]) mel_mat N_MELS = replicate 247 (replicate 128 NaN)"
    unfolding tensordot_f32_def N_MELS_def by (simp add: comp_def map_replicate_const)
  then show ?thesis
    unfolding log_arguments_f32_def Let_def
    by (simp add: loud_example_def spect)
qed

text \<open>
  C9, as stated: for every parsed example with finite samples the argument of the
  logarithm is at least \<^verbatim>\<open>1e-6\<close> and every component of the feature vector is
  finite. It does not hold over \<^verbatim>\<open>float32\<close>: the record with 64000 samples of
  \<^verbatim>\<open>3e38\<close> parses, the magnitude of the DC bin of every frame is infinite, its
  product with the zero weight of the DC row of \<open>mel_mat\<close> is NaN, and so are every
  argument of the logarithm and every mel component of the feature vector.
\<close>

theorem loud_example_gives_NaN:
  "parse_tfrecord (Example (sample_features(''audio'' \<mapsto> FloatList loud_audio))) = Inr loud_example
   \<and> log_arguments_f32 loud_example = replicate 247 (replicate 128 NaN)
   \<and> drop 5 (fst (extract_features_f32 loud_example)) = replicate 128 NaN"
proof -
  have "parse_tfrecord (Example (sample_features(''audio'' \<mapsto> FloatList loud_audio))) = Inr loud_example"
    by (simp add: parse_tfrecord_Inr_iff sample_features_simps)
       (simp add: loud_example_def sample_example_def length_loud_audio)
  moreover have "map (\<lambda>j. f32_mean (map (\<lambda>row. row ! j) (replicate 247 (replicate 128 NaN)))) [0..<128]
      = map (\<lambda>j. NaN) [0..<128]"
    by (rule map_cong) (simp_all add: f32_mean_replicate_NaN)
  then have "drop 5 (fst (extract_features_f32 loud_example)) = replicate 128 NaN"
    unfolding extract_features_f32_def Let_def loud_log_arguments reduce_mean_axis0_f32_def N_MELS_def
    by (simp add: map_replicate_const)
  ultimately show ?thesis using loud_log_arguments by simp
qed


text \<open>Where nothing overflows, the two models agree.\<close>

lemma FLT_MAX_pos: "0 < FLT_MAX"
  by (simp add: FLT_MAX_def)

lemma overflow_in_range: "\<bar>r\<bar> \<le> FLT_MAX \<Longrightarrow> overflow r = Finite r"
  by (auto simp: overflow_def)

lemma f32_abs_in_range:
  assumes "cmod z \<le> FLT_MAX"
  shows "f32_abs (overflow (Re z), overflow (Im z)) = Finite (cmod z)"
proof -
  have re: "\<bar>Re z\<bar> \<le> FLT_MAX"
    using abs_Re_le_cmod [of z] assms by simp
  have im: "\<bar>Im z\<bar> \<le> FLT_MAX"
    using abs_Im_le_cmod [of z] assms by simp
  have "\<bar>cmod z\<bar> \<le> FLT_MAX"
    using assms by simp
  then have "overflow (sqrt ((Re z)\<^sup>2 + (Im z)\<^sup>2)) = Finite (cmod z)"
    by (simp add: overflow_in_range cmod_def)
  then show ?thesis
    by (simp add: f32_abs_def overflow_in_range [OF re] overflow_in_range [OF im])
qed

lemma f32_sum_Finite: "f32_sum (map (\<lambda>k. Finite (g k)) ks) = overflow (\<Sum>k\<leftarrow>ks. g k)"
  by (auto simp: f32_sum_def comp_def)

lemma f32_mean_Finite:
  assumes "ks \<noteq> []" and "\<bar>\<Sum>k\<leftarrow>ks. g k\<bar> \<le> FLT_MAX"
  shows "f32_mean (map (\<lambda>k. Finite (g k)) ks) = Finite ((\<Sum>k\<leftarrow>ks. g k) / real (length ks))"
  using assms by (simp add: f32_mean_def f32_sum_Finite overflow_in_range)

lemma ln_in_range:
  assumes "1 / 10 ^ 6 \<le> x" and "x \<le> FLT_MAX"
  shows "\<bar>ln x\<bar> \<le> 10 ^ 6"
proof -
  from assms(1) have pos: "0 < x" by (rule less_le_trans [rotated]) simp
  have "x \<le> 2 ^ 128" using assms(2) by (simp add: FLT_MAX_def)
  with pos have "ln x \<le> ln (2 ^ 128 :: real)" by simp
  also have "\<dots> = real 128 * ln (2::real)" by (rule ln_realpow)
  also have "\<dots> \<le> 128 * (2 - 1)"
    using ln_le_minus_one [of "2::real"] by simp
  finally have upper: "ln x \<le> 10 ^ 6" by simp
  have "ln (10 ^ 6 :: real) \<le> 10 ^ 6 - 1"
    by (rule ln_le_minus_one) simp
  moreover have "ln (1 / 10 ^ 6 :: real) \<le> ln x"
    using assms(1) pos by simp
  moreover have "ln (1 / 10 ^ 6 :: real) = - ln (10 ^ 6)"
    by (simp add: ln_div)
  ultimately have lower: "- (10 ^ 6) \<le> ln x" by simp
  from upper lower show ?thesis by simp
qed


lemma tensordot_f32_tabulate:
  assumes each: "\<And>t k j. t < T \<Longrightarrow> k < length b \<Longrightarrow> j < c \<Longrightarrow> \<bar>S t k * (b ! k ! j)\<bar> \<le> FLT_MAX"
    and total: "\<And>t j. t < T \<Longrightarrow> j < c \<Longrightarrow> \<bar>\<Sum>k<length b. S t k * (b ! k ! j)\<bar> \<le> FLT_MAX"
  shows "tensordot_f32 (map (\<lambda>t. map (\<lambda>k. Finite (S t k)) [0..<length b]) [0..<T]) b c
     = map (\<lambda>t. map (\<lambda>j. Finite (\<Sum>k<length b. S t k * (b ! k ! j))) [0..<c]) [0..<T]"
proof -
  have entry: "f32_sum (map (\<lambda>k. f32_mul (map (\<lambda>k. Finite (S t k)) [0..<length b] ! k) (Finite (b ! k ! j)))
                          [0..<length b])
      = Finite (\<Sum>k<length b. S t k * (b ! k ! j))" if "t < T" and "j < c" for t j
  proof -
    have eq: "map (\<lambda>k. f32_mul (map (\<lambda>k. Finite (S t k)) [0..<length b] ! k) (Finite (b ! k ! j))) [0..<length b]
        = map (\<lambda>k. Finite (S t k * (b ! k ! j))) [0..<length b]"
      by (rule map_cong) (simp_all add: overflow_in_range each that)
    show ?thesis
      unfolding eq by (simp add: f32_sum_Finite sum_list_upt overflow_in_range total that)
  qed
  have row: "map (\<lambda>j. f32_sum (map (\<lambda>k. f32_mul (map (\<lambda>k. Finite (S t k)) [0..<length b] ! k)
                                              (Finite (b ! k ! j))) [0..<length b])) [0..<c]
      = map (\<lambda>j. Finite (\<Sum>k<length b. S t k * (b ! k ! j))) [0..<c]" if "t < T" for t
    by (rule map_cong) (simp_all add: entry that)
  have "map (\<lambda>t. map (\<lambda>j. f32_sum (map (\<lambda>k. f32_mul (map (\<lambda>k. Finite (S t k)) [0..<length b] ! k)
                                              (Finite (b ! k ! j))) [0..<length b])) [0..<c]) [0..<T]
      = map (\<lambda>t. map (\<lambda>j. Finite (\<Sum>k<length b. S t k * (b ! k ! j))) [0..<c]) [0..<T]"
    by (rule map_cong) (simp_all add: row)
  then show ?thesis
    by (simp add: tensordot_f32_def comp_def)
qed

lemma reduce_mean_axis0_f32_tabulate:
  assumes "0 < T" and "\<And>j. j < c \<Longrightarrow> \<bar>\<Sum>t<T. L t j\<bar> \<le> FLT_MAX"
  shows "reduce_mean_axis0_f32 (map (\<lambda>t. map (\<lambda>j. Finite (L t j)) [0..<c]) [0..<T]) c
     = map (\<lambda>j. Finite ((\<Sum>t<T. L t j) / real T)) [0..<c]"
proof -
  have "f32_mean (map (\<lambda>row. row ! j) (map (\<lambda>t. map (\<lambda>j. Finite (L t j)) [0..<c]) [0..<T]))
      = Finite ((\<Sum>t<T. L t j) / real T)" if "j < c" for j
  proof -
    have "map (\<lambda>t. map (\<lambda>j. Finite (L t j)) [0..<c] ! j) [0..<T] = map (\<lambda>t. Finite (L t j)) [0..<T]"
      by (rule map_cong) (simp_all add: that)
    then have eq: "map (\<lambda>row. row ! j) (map (\<lambda>t. map (\<lambda>j. Finite (L t j)) [0..<c]) [0..<T])
        = map (\<lambda>t. Finite (L t j)) [0..<T]"
      by (simp only: map_map comp_def)
    have ne: "[0..<T] \<noteq> []" using assms(1) by simp
    have "\<bar>\<Sum>t\<leftarrow>[0..<T]. L t j\<bar> \<le> FLT_MAX"
      using assms(2) [OF that] by (simp add: sum_list_upt)
    from f32_mean_Finite [OF ne this] show ?thesis
      unfolding eq by (simp add: sum_list_upt)
  qed
  then show ?thesis
    unfolding reduce_mean_axis0_f32_def by (intro map_cong) simp_all
qed


lemma table_cong:
  assumes "\<And>t j. t < T \<Longrightarrow> j < c \<Longrightarrow> f t j = g t j"
  shows "map (\<lambda>t. map (f t) [0..<c]) [0..<T] = map (\<lambda>t. map (g t) [0..<c]) [0..<T]"
proof (rule map_cong)
  fix t assume "t \<in> set [0..<T]"
  then have "t < T" by simp
  then show "map (f t) [0..<c] = map (g t) [0..<c]"
    by (intro map_cong) (simp_all add: assms)
qed simp

lemma table_map:
  "map (map h) (map (\<lambda>t. map (f t) [0..<c]) [0..<T]) = map (\<lambda>t. map (\<lambda>j. h (f t j)) [0..<c]) [0..<T]"
  by (simp add: comp_def)

lemma table_mem:
  assumes "t < T" and "j < c"
  shows "\<exists>row\<in>set (map (\<lambda>t. map (f t) [0..<c]) [0..<T]). f t j \<in> set row"
proof -
  have "map (f t) [0..<c] \<in> set (map (\<lambda>t. map (f t) [0..<c]) [0..<T])"
    unfolding set_map using assms(1) by (intro image_eqI [where x = t]) simp_all
  moreover have "f t j \<in> set (map (f t) [0..<c])"
    unfolding set_map using assms(2) by (intro image_eqI [where x = j]) simp_all
  ultimately show ?thesis by blast
qed

lemma mel_spec_tabulate:
  assumes "length a = 64000"
  shows "tensordot (map (map cmod) (stft a FFT_SIZE HOP FFT_SIZE)) mel_mat N_MELS
      = map (\<lambda>t. map (\<lambda>j. \<Sum>k<513. cmod (spec_STFT a t k) * (mel_mat ! k ! j)) [0..<128]) [0..<247]"
proof -
  have "map (map cmod) (stft a 1024 256 1024)
      = map (\<lambda>t. map (\<lambda>k. cmod (spec_STFT a t k)) [0..<length mel_mat]) [0..<247]"
    by (simp add: stft_audio [OF assms] length_mel_mat comp_def)
  then show ?thesis
    unfolding FFT_SIZE_def HOP_def N_MELS_def
    by (simp only: tensordot_tabulate) (simp add: length_mel_mat)
qed

text \<open>
  C9, amended. For every parsed example for which no magnitude of the short-time
  Fourier transform and no entry of \<^verbatim>\<open>mel_spec + 1e-6\<close> exceeds \<open>FLT_MAX\<close>, every
  argument of the logarithm is a finite number that is at least \<^verbatim>\<open>1e-6\<close>, and
  every component of the feature vector is finite: the number that the arithmetic of
  the reals gives.
\<close>

theorem log_argument_in_range:
  assumes parse: "parse_tfrecord r = Inr ex"
    and magnitudes: "\<forall>row\<in>set (stft (audio ex) FFT_SIZE HOP FFT_SIZE). \<forall>z\<in>set row. cmod z \<le> FLT_MAX"
    and mels: "\<forall>row\<in>set (tensordot (map (map cmod) (stft (audio ex) FFT_SIZE HOP FFT_SIZE)) mel_mat N_MELS).
                 \<forall>v\<in>set row. v + 1 / 10 ^ 6 \<le> FLT_MAX"
  shows "(\<forall>row\<in>set (log_arguments_f32 ex). \<forall>x\<in>set row. \<exists>v. x = Finite v \<and> 1 / 10 ^ 6 \<le> v)
       \<and> (\<forall>x\<in>set (fst (extract_features_f32 ex)). \<exists>v. x = Finite v)
       \<and> fst (extract_features_f32 ex) = map Finite (fst (extract_features ex))"
proof -
  define a where "a = audio ex"
  from parse have len: "length a = 64000"
    by (auto simp: parse_tfrecord_Inr_iff a_def)
  define S where "S t k = cmod (spec_STFT a t k)" for t k
  define P where "P t j = (\<Sum>k<513. S t k * (mel_mat ! k ! j))" for t j
  define L where "L t j = ln (P t j + 1 / 10 ^ 6)" for t j
  have stft_a: "stft a FFT_SIZE HOP FFT_SIZE = map (\<lambda>t. map (spec_STFT a t) [0..<513]) [0..<247]"
    by (simp add: FFT_SIZE_def HOP_def stft_audio [OF len])
  have mel_a: "tensordot (map (map cmod) (stft a FFT_SIZE HOP FFT_SIZE)) mel_mat N_MELS
      = map (\<lambda>t. map (P t) [0..<128]) [0..<247]"
    unfolding P_def S_def by (rule mel_spec_tabulate [OF len])
  have S_le: "S t k \<le> FLT_MAX" if "t < 247" and "k < 513" for t k
    using table_mem [OF that, of "spec_STFT a"] magnitudes
    unfolding S_def a_def [symmetric] stft_a by blast
  have P_le: "P t j + 1 / 10 ^ 6 \<le> FLT_MAX" if "t < 247" and "j < 128" for t j
    using table_mem [OF that, of P] mels
    unfolding a_def [symmetric] mel_a by blast
  have S_ge: "0 \<le> S t k" for t k
    by (simp add: S_def)
  have SM_ge: "0 \<le> S t k * (mel_mat ! k ! j)" if "k < 513" and "j < 128" for t k j
    using that by (simp add: S_ge mel_mat_nonneg)
  have P_ge: "0 \<le> P t j" if "j < 128" for t j
    unfolding P_def using that by (intro sum_nonneg) (simp add: SM_ge)
  have SM_le: "S t k * (mel_mat ! k ! j) \<le> P t j" if "k < 513" and "j < 128" for t k j
    unfolding P_def using that by (intro member_le_sum) (simp_all add: SM_ge)
  have each: "\<bar>S t k * (mel_mat ! k ! j)\<bar> \<le> FLT_MAX"
    if "t < 247" and "k < length mel_mat" and "j < 128" for t k j
    using that SM_ge [of k j t] SM_le [of k j t] P_le [of t j] by (simp add: length_mel_mat)
  have total: "\<bar>\<Sum>k<length mel_mat. S t k * (mel_mat ! k ! j)\<bar> \<le> FLT_MAX"
    if "t < 247" and "j < 128" for t j
    using that P_ge [of j t] P_le [of t j] by (simp add: length_mel_mat P_def)
  have spec_f32: "map (map f32_abs) (stft_f32 a FFT_SIZE HOP FFT_SIZE)
      = map (\<lambda>t. map (\<lambda>k. Finite (S t k)) [0..<length mel_mat]) [0..<247]"
  proof -
    have "map (map f32_abs) (stft_f32 a FFT_SIZE HOP FFT_SIZE)
        = map (\<lambda>t. map (\<lambda>k. f32_abs (overflow (Re (spec_STFT a t k)), overflow (Im (spec_STFT a t k))))
                      [0..<513]) [0..<247]"
      unfolding stft_f32_def stft_a by (simp add: comp_def)
    also have "\<dots> = map (\<lambda>t. map (\<lambda>k. Finite (S t k)) [0..<513]) [0..<247]"
    proof (rule table_cong)
      fix t k :: nat assume "t < 247" and "k < 513"
      then have "cmod (spec_STFT a t k) \<le> FLT_MAX" using S_le by (simp add: S_def)
      then show "f32_abs (overflow (Re (spec_STFT a t k)), overflow (Im (spec_STFT a t k))) = Finite (S t k)"
        unfolding S_def by (rule f32_abs_in_range)
    qed
    finally show ?thesis by (simp add: length_mel_mat)
  qed
  have mel_f32: "tensordot_f32 (map (map f32_abs) (stft_f32 a FFT_SIZE HOP FFT_SIZE)) mel_mat N_MELS
      = map (\<lambda>t. map (\<lambda>j. Finite (P t j)) [0..<128]) [0..<247]"
    unfolding spec_f32 N_MELS_def
    using tensordot_f32_tabulate [of 247 mel_mat 128 S, OF each total]
    by (simp add: length_mel_mat P_def)
  have args: "log_arguments_f32 ex = map (\<lambda>t. map (\<lambda>j. Finite (P t j + 1 / 10 ^ 6)) [0..<128]) [0..<247]"
  proof -
    have "log_arguments_f32 ex
        = map (\<lambda>t. map (\<lambda>j. f32_add (Finite (P t j)) (Finite (1 / 10 ^ 6))) [0..<128]) [0..<247]"
      unfolding log_arguments_f32_def Let_def a_def [symmetric] mel_f32 by (simp add: comp_def)
    also have "\<dots> = map (\<lambda>t. map (\<lambda>j. Finite (P t j + 1 / 10 ^ 6)) [0..<128]) [0..<247]"
    proof (rule table_cong)
      fix t j :: nat assume "t < 247" and "j < 128"
      then show "f32_add (Finite (P t j)) (Finite (1 / 10 ^ 6)) = Finite (P t j + 1 / 10 ^ 6)"
        using P_ge [of j t] P_le [of t j] by (simp add: overflow_in_range)
    qed
    finally show ?thesis .
  qed
  have logs: "map (map f32_log) (log_arguments_f32 ex)
      = map (\<lambda>t. map (\<lambda>j. Finite (L t j)) [0..<128]) [0..<247]"
  proof -
    have "map (map f32_log) (log_arguments_f32 ex)
        = map (\<lambda>t. map (\<lambda>j. f32_log (Finite (P t j + 1 / 10 ^ 6))) [0..<128]) [0..<247]"
      unfolding args by (simp add: comp_def)
    also have "\<dots> = map (\<lambda>t. map (\<lambda>j. Finite (L t j)) [0..<128]) [0..<247]"
    proof (rule table_cong)
      fix t j :: nat assume "t < 247" and "j < 128"
      then show "f32_log (Finite (P t j + 1 / 10 ^ 6)) = Finite (L t j)"
        using P_ge [of j t] by (simp add: L_def add_nonneg_pos)
    qed
    finally show ?thesis .
  qed
  have L_abs: "\<bar>L t j\<bar> \<le> 10 ^ 6" if "t < 247" and "j < 128" for t j
    unfolding L_def using that P_ge [of j t] P_le [of t j] by (intro ln_in_range) simp_all
  have sums: "\<bar>\<Sum>t<247. L t j\<bar> \<le> FLT_MAX" if "j < 128" for j
  proof -
    have "\<bar>\<Sum>t<247. L t j\<bar> \<le> (\<Sum>t<247. \<bar>L t j\<bar>)" by (rule sum_abs)
    also have "\<dots> \<le> (\<Sum>t<(247::nat). 10 ^ 6)"
      by (rule sum_mono) (use L_abs that in simp)
    also have "\<dots> \<le> FLT_MAX" by (simp add: FLT_MAX_def)
    finally show ?thesis .
  qed
  have mean_f32: "reduce_mean_axis0_f32 (map (map f32_log) (log_arguments_f32 ex)) N_MELS
      = map (\<lambda>j. Finite ((\<Sum>t<247. L t j) / real (247::nat))) [0..<128]"
    unfolding logs N_MELS_def by (rule reduce_mean_axis0_f32_tabulate) (simp_all add: sums)
  have mean_real: "reduce_mean_axis0
        (map (map (\<lambda>v. ln (v + 1 / 10 ^ 6)))
           (tensordot (map (map cmod) (stft a FFT_SIZE HOP FFT_SIZE)) mel_mat N_MELS)) N_MELS
      = map (\<lambda>j. (\<Sum>t<247. L t j) / real (247::nat)) [0..<128]"
    unfolding mel_a unfolding table_map N_MELS_def L_def [symmetric] by (rule reduce_mean_tabulate)
  have vector: "fst (extract_features_f32 ex) = map Finite (fst (extract_features ex))"
    unfolding extract_features_f32_def extract_features_def Let_def a_def [symmetric]
      mean_f32 mean_real
    by (simp add: comp_def)
  have "\<exists>v. x = Finite v \<and> 1 / 10 ^ 6 \<le> v"
    if "row \<in> set (log_arguments_f32 ex)" and "x \<in> set row" for row x
    using that P_ge unfolding args by auto
  moreover have "\<exists>v. x = Finite v" if "x \<in> set (fst (extract_features_f32 ex))" for x
    using that unfolding vector by auto
  ultimately show ?thesis using vector by blast
qed


text \<open>
  The weights of the mel matrix are at most \<open>1\<close>, so that the two conditions hold
  for every waveform whose samples are at most \<open>2 ^ 100\<close> in magnitude.
\<close>

lemma triangle_le_1:
  fixes s l c u :: real
  assumes "l < c" and "c < u"
  shows "max 0 (min ((s - l) / (c - l)) ((u - s) / (u - c))) \<le> 1"
proof (cases "s \<le> c")
  case True
  with assms have "(s - l) / (c - l) \<le> 1" by simp
  then show ?thesis by simp
next
  case False
  with assms have "(u - s) / (u - c) \<le> 1" by simp
  then show ?thesis by simp
qed

lemma mel_edges_increasing: "hertz_to_mel 30 < hertz_to_mel (real SR / 2)"
  by (simp add: hertz_to_mel_def SR_def)

lemma linspace_nth: "i < n \<Longrightarrow> linspace a b n ! i = a + (b - a) * real i / real (n - 1)"
  by (simp add: linspace_def)

lemma mel_mat_le_1:
  assumes "row \<in> set mel_mat"
  shows "\<forall>v\<in>set row. v \<le> 1"
proof -
  define lo where "lo = hertz_to_mel 30"
  define hi where "hi = hertz_to_mel (real SR / 2)"
  define xs where "xs = linspace lo hi 130"
  have lt: "lo < hi" unfolding lo_def hi_def by (rule mel_edges_increasing)
  have step: "xs ! i < xs ! Suc i" if "Suc i < 130" for i
  proof -
    have "xs ! i = lo + (hi - lo) * real i / 129" "xs ! Suc i = lo + (hi - lo) * real (Suc i) / 129"
      using that by (simp_all add: xs_def linspace_nth)
    moreover have "(hi - lo) * real i < (hi - lo) * real (Suc i)"
      using lt by simp
    ultimately show ?thesis by (simp add: divide_strict_right_mono)
  qed
  have edges: "frame xs 3 1 = map (\<lambda>i. take 3 (drop i xs)) [0..<128]"
    by (simp add: frame_def xs_def length_linspace)
  have tri: "max 0 (min ((s - e ! 0) / (e ! 1 - e ! 0)) ((e ! 2 - s) / (e ! 2 - e ! 1))) \<le> 1"
    if "e \<in> set (frame xs 3 1)" for e s
  proof -
    from that obtain i where i: "i < 128" and e: "e = take 3 (drop i xs)"
      unfolding edges by auto
    have len: "length xs = 130" by (simp add: xs_def length_linspace)
    from i len have nth: "e ! 0 = xs ! i" "e ! 1 = xs ! Suc i" "e ! 2 = xs ! Suc (Suc i)"
      by (simp_all add: e)
    have "xs ! i < xs ! Suc i" using i by (intro step) simp
    moreover have "xs ! Suc i < xs ! Suc (Suc i)" using i by (intro step) simp
    ultimately show ?thesis
      unfolding nth by (rule triangle_le_1)
  qed
  from assms show ?thesis
    unfolding mel_mat_def linear_to_mel_weight_matrix_def Let_def N_MELS_def
      lo_def [symmetric] hi_def [symmetric]
    using tri by (auto simp: xs_def)
qed


lemma spec_hann_le_1: "spec_hann n \<le> 1"
proof -
  show ?thesis
    unfolding spec_hann_def using cos_ge_minus_one [of "2 * pi * real n / 1024"] by linarith
qed

lemma spec_STFT_bounded:
  assumes "length a = 64000" and "\<forall>x\<in>set a. \<bar>x\<bar> \<le> B" and "t < 247"
  shows "cmod (spec_STFT a t k) \<le> 1024 * B"
proof -
  have "cmod (complex_of_real (a ! (256 * t + n) * spec_hann n)
              * cis (- (2 * pi * real k * real n / 1024))) \<le> B" if "n < 1024" for n
  proof -
    from that assms(1,3) have "a ! (256 * t + n) \<in> set a" by (intro nth_mem) simp
    with assms(2) have x: "\<bar>a ! (256 * t + n)\<bar> \<le> B" by blast
    then have "0 \<le> B" by simp
    have "\<bar>a ! (256 * t + n)\<bar> * \<bar>spec_hann n\<bar> \<le> B * 1"
      using x spec_hann_nonneg [of n] spec_hann_le_1 [of n] by (intro mult_mono) simp_all
    then show ?thesis by (simp add: norm_mult abs_mult)
  qed
  then have "(\<Sum>n<1024. cmod (complex_of_real (a ! (256 * t + n) * spec_hann n)
                  * cis (- (2 * pi * real k * real n / 1024)))) \<le> (\<Sum>n<(1024::nat). B)"
    by (intro sum_mono) simp
  moreover have "cmod (spec_STFT a t k)
      \<le> (\<Sum>n<1024. cmod (complex_of_real (a ! (256 * t + n) * spec_hann n)
                  * cis (- (2 * pi * real k * real n / 1024))))"
    unfolding spec_STFT_def by (rule norm_sum)
  ultimately show ?thesis by simp
qed

lemma bounded_audio_in_range:
  assumes parse: "parse_tfrecord r = Inr ex"
    and bound: "\<forall>x\<in>set (audio ex). \<bar>x\<bar> \<le> 2 ^ 100"
  shows "\<forall>row\<in>set (stft (audio ex) FFT_SIZE HOP FFT_SIZE). \<forall>z\<in>set row. cmod z \<le> FLT_MAX"
    and "\<forall>row\<in>set (tensordot (map (map cmod) (stft (audio ex) FFT_SIZE HOP FFT_SIZE)) mel_mat N_MELS).
           \<forall>v\<in>set row. v + 1 / 10 ^ 6 \<le> FLT_MAX"
proof -
  from parse have len: "length (audio ex) = 64000"
    by (auto simp: parse_tfrecord_Inr_iff)
  have S: "cmod (spec_STFT (audio ex) t k) \<le> 1024 * 2 ^ 100" if "t < 247" for t k
    by (rule spec_STFT_bounded [OF len bound that])
  have S_max: "cmod (spec_STFT (audio ex) t k) \<le> FLT_MAX" if "t < 247" for t k
  proof -
    have "(1024 * 2 ^ 100 :: real) \<le> FLT_MAX" by (simp add: FLT_MAX_def)
    with S [OF that, of k] show ?thesis by (rule order_trans)
  qed
  have "stft (audio ex) FFT_SIZE HOP FFT_SIZE
      = map (\<lambda>t. map (spec_STFT (audio ex) t) [0..<513]) [0..<247]"
    by (simp add: FFT_SIZE_def HOP_def stft_audio [OF len])
  then show "\<forall>row\<in>set (stft (audio ex) FFT_SIZE HOP FFT_SIZE). \<forall>z\<in>set row. cmod z \<le> FLT_MAX"
    using S_max by auto
  have P: "(\<Sum>k<513. cmod (spec_STFT (audio ex) t k) * (mel_mat ! k ! j)) \<le> 513 * (1024 * 2 ^ 100)"
    if "t < 247" and "j < 128" for t j
  proof -
    have "cmod (spec_STFT (audio ex) t k) * (mel_mat ! k ! j) \<le> 1024 * 2 ^ 100 * 1" if "k < 513" for k
    proof -
      from that have row: "mel_mat ! k \<in> set mel_mat" by (simp add: length_mel_mat)
      with \<open>j < 128\<close> have "mel_mat ! k ! j \<in> set (mel_mat ! k)" by (simp add: mel_mat_rows(1))
      with mel_mat_le_1 [OF row] have "mel_mat ! k ! j \<le> 1" by blast
      with S [OF \<open>t < 247\<close>, of k] mel_mat_nonneg [OF that \<open>j < 128\<close>] show ?thesis
        by (intro mult_mono) simp_all
    qed
    then have "(\<Sum>k<513. cmod (spec_STFT (audio ex) t k) * (mel_mat ! k ! j))
        \<le> (\<Sum>k<(513::nat). 1024 * 2 ^ 100 * 1)"
      by (intro sum_mono) simp
    then show ?thesis by simp
  qed
  have P_max: "(\<Sum>k<513. cmod (spec_STFT (audio ex) t k) * (mel_mat ! k ! j)) + 1 / 10 ^ 6 \<le> FLT_MAX"
    if "t < 247" and "j < 128" for t j
  proof -
    have "(513 * (1024 * 2 ^ 100) + 1 / 10 ^ 6 :: real) \<le> FLT_MAX"
      by (simp add: FLT_MAX_def)
    with P [OF that] show ?thesis by linarith
  qed
  then show "\<forall>row\<in>set (tensordot (map (map cmod) (stft (audio ex) FFT_SIZE HOP FFT_SIZE)) mel_mat N_MELS).
           \<forall>v\<in>set row. v + 1 / 10 ^ 6 \<le> FLT_MAX"
    unfolding mel_spec_tabulate [OF len] by auto
qed


theorem log_argument_in_range_witness:
  "fst (extract_features_f32 (sample_example\<lparr>audio := replicate 64000 (1 / 2)\<rparr>))
     = map Finite (fst (extract_features (sample_example\<lparr>audio := replicate 64000 (1 / 2)\<rparr>)))"
proof -
  let ?ex = "sample_example\<lparr>audio := replicate 64000 (1 / 2)\<rparr>"
  have parse: "parse_tfrecord (Example (sample_features(''audio'' \<mapsto> FloatList (replicate 64000 (1 / 2))))) = Inr ?ex"
    by (simp add: parse_tfrecord_Inr_iff sample_features_simps) (simp add: sample_example_def)
  have "\<forall>x\<in>set (audio ?ex). \<bar>x\<bar> \<le> 2 ^ 100"
    by simp
  then have "\<forall>row\<in>set (stft (audio ?ex) FFT_SIZE HOP FFT_SIZE). \<forall>z\<in>set row. cmod z \<le> FLT_MAX"
    and "\<forall>row\<in>set (tensordot (map (map cmod) (stft (audio ?ex) FFT_SIZE HOP FFT_SIZE)) mel_mat N_MELS).
           \<forall>v\<in>set row. v + 1 / 10 ^ 6 \<le> FLT_MAX"
    by (rule bounded_audio_in_range [OF parse])+
  with log_argument_in_range [OF parse] show ?thesis by blast
qed

end
